theory Spec2Isabelle
  imports Complex_Main
begin

section \<open>JavaScript values, strings and arrays\<close>

text \<open>
  Strings are character lists. Numbers that the builders format into SQL text (a LIMIT, an
  OFFSET, a column length, a page number) are integers; \<open>numberToString\<close> is the decimal
  text a template literal gives for an integer (of the safe range, below \<open>2^53\<close> in
  magnitude, where JavaScript numbers are exact).
\<close>

definition digit :: "nat \<Rightarrow> char" where
  "digit d = ''0123456789'' ! d"

fun natToString :: "nat \<Rightarrow> string" where
  "natToString n = (if n < 10 then [digit n] else natToString (n div 10) @ [digit (n mod 10)])"

definition numberToString :: "int \<Rightarrow> string" where
  "numberToString i = (if i < 0 then CHR ''-'' # natToString (nat (- i)) else natToString (nat i))"

text \<open>\<open>Array.prototype.join\<close> on an array of strings.\<close>

fun array_join :: "string \<Rightarrow> string list \<Rightarrow> string" where
  "array_join sep [] = []"
| "array_join sep [x] = x"
| "array_join sep (x # y # ys) = x @ sep @ array_join sep (y # ys)"

text \<open>\<open>String.prototype.startsWith\<close> and \<open>String.prototype.includes\<close>.\<close>

definition startsWith :: "string \<Rightarrow> string \<Rightarrow> bool" where
  "startsWith s p = (take (length p) s = p)"

fun includes_str :: "string \<Rightarrow> string \<Rightarrow> bool" where
  "includes_str [] p = (p = [])"
| "includes_str (c # s) p = (startsWith (c # s) p \<or> includes_str s p)"

text \<open>
  The values a caller can hand to the builders (\<open>any\<close> in the source). A date is held by the
  text its \<open>toISOString()\<close> gives, and a value of any further kind by the text of its
  \<open>toString()\<close>.
\<close>

datatype js_value =
    JNull
  | JUndefined
  | JString string
  | JBoolean bool
  | JNumber int
  | JDate string
  | JOther string

text \<open>A value that is either one string or an array of strings (\<open>string | string[]\<close>).\<close>

datatype string_or_array = One string | Many "string list"

definition columnList :: "string_or_array \<Rightarrow> string" where
  "columnList columns = (case columns of Many cs \<Rightarrow> array_join '', '' cs | One c \<Rightarrow> c)"

section \<open>QueryBuilder\<close>

text \<open>
  The private fields of the class. The record is generic in how the parameter array
  \<open>_whereValues\<close> is held: its contents (\<open>'v list\<close>) where only the contents matter, its
  address in a store of arrays where identity matters.
\<close>

record 'a QueryBuilder =
  tableName :: string
  selectColumns :: "string list"
  whereConditions :: "string list"
  whereValues :: 'a
  orderByClause :: string
  groupByClause :: string
  havingClause :: string
  limitClause :: string
  offsetClause :: string
  distinct_q :: bool
  joins :: "string list"

definition new_QueryBuilder :: "string \<Rightarrow> 'v list QueryBuilder" where
  "new_QueryBuilder name =
     \<lparr>tableName = name, selectColumns = [''*''], whereConditions = [], whereValues = [],
      orderByClause = [], groupByClause = [], havingClause = [], limitClause = [],
      offsetClause = [], distinct_q = False, joins = []\<rparr>"

definition select :: "string list \<Rightarrow> 'v list QueryBuilder \<Rightarrow> 'v list QueryBuilder" where
  "select columns q = q\<lparr>selectColumns := columns\<rparr>"

definition distinct_m :: "'v list QueryBuilder \<Rightarrow> 'v list QueryBuilder" where
  "distinct_m q = q\<lparr>distinct_q := True\<rparr>"

text \<open>\<open>where(column, operator, value)\<close>; \<open>where\<close> is a keyword here, hence the suffix.\<close>

definition where_m :: "string \<Rightarrow> string \<Rightarrow> 'v \<Rightarrow> 'v list QueryBuilder \<Rightarrow> 'v list QueryBuilder" where
  "where_m column operator v q =
     q\<lparr>whereConditions := whereConditions q @ [column @ '' '' @ operator @ '' ?''],
       whereValues := whereValues q @ [v]\<rparr>"

definition whereRaw :: "string \<Rightarrow> 'v list \<Rightarrow> 'v list QueryBuilder \<Rightarrow> 'v list QueryBuilder" where
  "whereRaw condition vs q =
     q\<lparr>whereConditions := whereConditions q @ [condition],
       whereValues := whereValues q @ vs\<rparr>"

definition placeholders :: "'v list \<Rightarrow> string" where
  "placeholders vs = array_join '', '' (map (\<lambda>_. ''?'') vs)"

definition whereIn :: "string \<Rightarrow> 'v list \<Rightarrow> 'v list QueryBuilder \<Rightarrow> 'v list QueryBuilder" where
  "whereIn column vs q =
     (if length vs = 0 then q\<lparr>whereConditions := whereConditions q @ [''1 = 0'']\<rparr>
      else q\<lparr>whereConditions := whereConditions q @ [column @ '' IN ('' @ placeholders vs @ '')''],
             whereValues := whereValues q @ vs\<rparr>)"

definition whereNotIn :: "string \<Rightarrow> 'v list \<Rightarrow> 'v list QueryBuilder \<Rightarrow> 'v list QueryBuilder" where
  "whereNotIn column vs q =
     (if length vs = 0 then q
      else q\<lparr>whereConditions := whereConditions q @ [column @ '' NOT IN ('' @ placeholders vs @ '')''],
             whereValues := whereValues q @ vs\<rparr>)"

definition whereNull :: "string \<Rightarrow> 'v list QueryBuilder \<Rightarrow> 'v list QueryBuilder" where
  "whereNull column q = q\<lparr>whereConditions := whereConditions q @ [column @ '' IS NULL'']\<rparr>"

definition whereNotNull :: "string \<Rightarrow> 'v list QueryBuilder \<Rightarrow> 'v list QueryBuilder" where
  "whereNotNull column q = q\<lparr>whereConditions := whereConditions q @ [column @ '' IS NOT NULL'']\<rparr>"

definition whereBetween :: "string \<Rightarrow> 'v \<Rightarrow> 'v \<Rightarrow> 'v list QueryBuilder \<Rightarrow> 'v list QueryBuilder" where
  "whereBetween column lo hi q =
     q\<lparr>whereConditions := whereConditions q @ [column @ '' BETWEEN ? AND ?''],
       whereValues := whereValues q @ [lo, hi]\<rparr>"

definition whereLike :: "string \<Rightarrow> 'v \<Rightarrow> 'v list QueryBuilder \<Rightarrow> 'v list QueryBuilder" where
  "whereLike column pattern q =
     q\<lparr>whereConditions := whereConditions q @ [column @ '' LIKE ?''],
       whereValues := whereValues q @ [pattern]\<rparr>"

definition whereNotLike :: "string \<Rightarrow> 'v \<Rightarrow> 'v list QueryBuilder \<Rightarrow> 'v list QueryBuilder" where
  "whereNotLike column pattern q =
     q\<lparr>whereConditions := whereConditions q @ [column @ '' NOT LIKE ?''],
       whereValues := whereValues q @ [pattern]\<rparr>"

text \<open>
  \<open>Array.prototype.pop\<close>: the removed last element (\<open>undefined\<close> on an empty array, here
  \<open>None\<close>) and the array that remains.
\<close>

fun array_pop :: "'a list \<Rightarrow> 'a option \<times> 'a list" where
  "array_pop [] = (None, [])"
| "array_pop [x] = (Some x, [])"
| "array_pop (x # y # ys) = (case array_pop (y # ys) of (l, r) \<Rightarrow> (l, x # r))"

definition orWhere :: "string \<Rightarrow> string \<Rightarrow> 'v \<Rightarrow> 'v list QueryBuilder \<Rightarrow> 'v list QueryBuilder" where
  "orWhere column operator v q =
     (let q1 =
        (if length (whereConditions q) > 0 then
           (case array_pop (whereConditions q) of
              (Some lastCondition, rest) \<Rightarrow>
                q\<lparr>whereConditions := rest @ [lastCondition @ '' OR '' @ column @ '' '' @ operator @ '' ?'']\<rparr>
            | (None, rest) \<Rightarrow>
                q\<lparr>whereConditions := rest @ [''undefined OR '' @ column @ '' '' @ operator @ '' ?'']\<rparr>)
         else q\<lparr>whereConditions := whereConditions q @ [column @ '' '' @ operator @ '' ?'']\<rparr>)
      in q1\<lparr>whereValues := whereValues q1 @ [v]\<rparr>)"

datatype join_type = INNER | LEFT | RIGHT | FULL

fun join_type_text :: "join_type \<Rightarrow> string" where
  "join_type_text INNER = ''INNER''"
| "join_type_text LEFT = ''LEFT''"
| "join_type_text RIGHT = ''RIGHT''"
| "join_type_text FULL = ''FULL''"

definition join_m :: "string \<Rightarrow> string \<Rightarrow> string \<Rightarrow> string \<Rightarrow> join_type option \<Rightarrow>
    'v list QueryBuilder \<Rightarrow> 'v list QueryBuilder" where
  "join_m table first operator second type q =
     (let ty = (case type of None \<Rightarrow> INNER | Some t \<Rightarrow> t) in
      q\<lparr>joins := joins q @
        [join_type_text ty @ '' JOIN '' @ table @ '' ON '' @ first @ '' '' @ operator @ '' '' @ second]\<rparr>)"

definition leftJoin :: "string \<Rightarrow> string \<Rightarrow> string \<Rightarrow> string \<Rightarrow> 'v list QueryBuilder \<Rightarrow> 'v list QueryBuilder" where
  "leftJoin table first operator second q = join_m table first operator second (Some LEFT) q"

definition rightJoin :: "string \<Rightarrow> string \<Rightarrow> string \<Rightarrow> string \<Rightarrow> 'v list QueryBuilder \<Rightarrow> 'v list QueryBuilder" where
  "rightJoin table first operator second q = join_m table first operator second (Some RIGHT) q"

datatype direction = ASC | DESC

fun direction_text :: "direction \<Rightarrow> string" where
  "direction_text ASC = ''ASC''"
| "direction_text DESC = ''DESC''"

definition orderBy :: "string \<Rightarrow> direction option \<Rightarrow> 'v list QueryBuilder \<Rightarrow> 'v list QueryBuilder" where
  "orderBy column dir q =
     (let d = (case dir of None \<Rightarrow> ASC | Some d \<Rightarrow> d) in
      q\<lparr>orderByClause := ''ORDER BY '' @ column @ '' '' @ direction_text d\<rparr>)"

definition groupBy :: "string_or_array \<Rightarrow> 'v list QueryBuilder \<Rightarrow> 'v list QueryBuilder" where
  "groupBy columns q = q\<lparr>groupByClause := ''GROUP BY '' @ columnList columns\<rparr>"

definition having :: "string \<Rightarrow> 'v list \<Rightarrow> 'v list QueryBuilder \<Rightarrow> 'v list QueryBuilder" where
  "having condition vs q =
     q\<lparr>havingClause := ''HAVING '' @ condition, whereValues := whereValues q @ vs\<rparr>"

definition limit :: "int \<Rightarrow> 'v list QueryBuilder \<Rightarrow> 'v list QueryBuilder" where
  "limit count q = q\<lparr>limitClause := ''LIMIT '' @ numberToString count\<rparr>"

definition offset :: "int \<Rightarrow> 'v list QueryBuilder \<Rightarrow> 'v list QueryBuilder" where
  "offset count q = q\<lparr>offsetClause := ''OFFSET '' @ numberToString count\<rparr>"

definition paginate :: "int \<Rightarrow> int \<Rightarrow> 'v list QueryBuilder \<Rightarrow> 'v list QueryBuilder" where
  "paginate page perPage q = offset ((page - 1) * perPage) (limit perPage q)"

text \<open>
  The object \<open>{sql, values}\<close> that both renderers return. A string is truthy when it is
  not empty.
\<close>

record 'a rendered =
  sql :: string
  values_of :: 'a

definition truthy_str :: "string \<Rightarrow> bool" where
  "truthy_str s = (s \<noteq> [])"

definition toSQL :: "'v list QueryBuilder \<Rightarrow> 'v list rendered" where
  "toSQL q =
     (let s0 = ''SELECT '';
          s1 = (if distinct_q q then s0 @ ''DISTINCT '' else s0);
          s2 = s1 @ array_join '', '' (selectColumns q);
          s3 = s2 @ '' FROM '' @ tableName q;
          s4 = (if length (joins q) > 0 then s3 @ '' '' @ array_join '' '' (joins q) else s3);
          s5 = (if length (whereConditions q) > 0
                then s4 @ '' WHERE '' @ array_join '' AND '' (whereConditions q) else s4);
          s6 = (if truthy_str (groupByClause q) then s5 @ '' '' @ groupByClause q else s5);
          s7 = (if truthy_str (havingClause q) then s6 @ '' '' @ havingClause q else s6);
          s8 = (if truthy_str (orderByClause q) then s7 @ '' '' @ orderByClause q else s7);
          s9 = (if truthy_str (limitClause q) then s8 @ '' '' @ limitClause q else s8);
          s10 = (if truthy_str (offsetClause q) then s9 @ '' '' @ offsetClause q else s9)
      in \<lparr>sql = s10, values_of = whereValues q\<rparr>)"

definition toCountSQL :: "'v list QueryBuilder \<Rightarrow> 'v list rendered" where
  "toCountSQL q =
     (let s0 = ''SELECT COUNT(*) as count FROM '' @ tableName q;
          s1 = (if length (joins q) > 0 then s0 @ '' '' @ array_join '' '' (joins q) else s0);
          s2 = (if length (whereConditions q) > 0
                then s1 @ '' WHERE '' @ array_join '' AND '' (whereConditions q) else s1);
          s3 = (if truthy_str (groupByClause q) then s2 @ '' '' @ groupByClause q else s2);
          s4 = (if truthy_str (havingClause q) then s3 @ '' '' @ havingClause q else s3)
      in \<lparr>sql = s4, values_of = whereValues q\<rparr>)"

subsection \<open>The returned array as an object\<close>

text \<open>
  Whether the array a renderer returns is the builder's own array is a question of
  identity, so arrays live in a store here: an address is an index into the list of the
  arrays allocated so far. A builder object holds the address of its \<open>_whereValues\<close>.
\<close>

type_synonym addr = nat
type_synonym 'v store = "'v list list"

definition alloc :: "'v list \<Rightarrow> 'v store \<Rightarrow> addr \<times> 'v store" where
  "alloc xs st = (length st, st @ [xs])"

definition lookup :: "'v store \<Rightarrow> addr \<Rightarrow> 'v list option" where
  "lookup st a = (if a < length st then Some (st ! a) else None)"

text \<open>
  Any mutation of the array at an address (\<open>push\<close>, \<open>pop\<close>, an assignment to an index or
  to \<open>length\<close>, \<open>splice\<close>, ...) leaves it with some new contents.
\<close>

definition mutate :: "addr \<Rightarrow> 'v list \<Rightarrow> 'v store \<Rightarrow> 'v store" where
  "mutate a xs st = st[a := xs]"

text \<open>The builder as the value-level functions see it: its parameter array read from the store.\<close>

definition view :: "'v store \<Rightarrow> addr QueryBuilder \<Rightarrow> 'v list QueryBuilder option" where
  "view st q =
     (case lookup st (whereValues q) of
        None \<Rightarrow> None
      | Some vs \<Rightarrow>
          Some \<lparr>tableName = tableName q, selectColumns = selectColumns q,
                whereConditions = whereConditions q, whereValues = vs,
                orderByClause = orderByClause q, groupByClause = groupByClause q,
                havingClause = havingClause q, limitClause = limitClause q,
                offsetClause = offsetClause q, distinct_q = distinct_q q, joins = joins q\<rparr>)"

text \<open>
  \<open>values: [...this._whereValues]\<close> allocates a new array with the elements of the
  builder's array; the builder object itself is not assigned to.
\<close>

definition toSQL_obj :: "addr QueryBuilder \<Rightarrow> 'v store \<Rightarrow> (addr rendered \<times> 'v store) option" where
  "toSQL_obj q st =
     (case view st q of
        None \<Rightarrow> None
      | Some qv \<Rightarrow>
          (case alloc (values_of (toSQL qv)) st of
             (a, st') \<Rightarrow> Some (\<lparr>sql = sql (toSQL qv), values_of = a\<rparr>, st')))"

definition toCountSQL_obj :: "addr QueryBuilder \<Rightarrow> 'v store \<Rightarrow> (addr rendered \<times> 'v store) option" where
  "toCountSQL_obj q st =
     (case view st q of
        None \<Rightarrow> None
      | Some qv \<Rightarrow>
          (case alloc (values_of (toCountSQL qv)) st of
             (a, st') \<Rightarrow> Some (\<lparr>sql = sql (toCountSQL qv), values_of = a\<rparr>, st')))"

section \<open>TableBuilder\<close>

text \<open>
  What a method can throw. Every method of the fluent interface either returns \<open>this\<close> or
  throws; a call is modelled by the error it threw, if any, and the builder as it is after
  the call.
\<close>

datatype error = Error string | TypeError string

record ColumnBuilder =
  col_name :: string
  col_type :: string
  modifiers :: "string list"

text \<open>
  \<open>_currentColumn\<close> is a reference to an object that is also an element of \<open>_columns\<close>:
  it is held as the index of that element, \<open>None\<close> for \<open>null\<close>.
\<close>

record TableBuilder =
  tb_tableName :: string
  columns :: "ColumnBuilder list"
  constraints :: "string list"
  currentColumn :: "nat option"

type_synonym outcome = "error option \<times> TableBuilder"

definition new_TableBuilder :: "string \<Rightarrow> TableBuilder" where
  "new_TableBuilder name =
     \<lparr>tb_tableName = name, columns = [], constraints = [], currentColumn = None\<rparr>"

text \<open>The two statements every column method starts with: set the current column, push it.\<close>

definition declare_column :: "ColumnBuilder \<Rightarrow> TableBuilder \<Rightarrow> TableBuilder" where
  "declare_column c tb =
     tb\<lparr>currentColumn := Some (length (columns tb)), columns := columns tb @ [c]\<rparr>"

text \<open>\<open>_currentColumn.modifiers.push(m)\<close>, through the reference.\<close>

definition push_modifier :: "nat \<Rightarrow> string \<Rightarrow> TableBuilder \<Rightarrow> TableBuilder" where
  "push_modifier i m tb =
     (if i < length (columns tb)
      then tb\<lparr>columns := (columns tb)[i := (columns tb ! i)\<lparr>modifiers := modifiers (columns tb ! i) @ [m]\<rparr>]\<rparr>
      else tb)"

definition no_column_selected :: error where
  "no_column_selected = Error ''No column selected. Call a column type method first.''"

definition modifier :: "string \<Rightarrow> TableBuilder \<Rightarrow> outcome" where
  "modifier m tb =
     (case currentColumn tb of
        None \<Rightarrow> (Some no_column_selected, tb)
      | Some i \<Rightarrow> (None, push_modifier i m tb))"

definition replace_quotes :: "string \<Rightarrow> string" where
  "replace_quotes s = concat (map (\<lambda>c. if c = CHR 0x27 then [CHR 0x27, CHR 0x27] else [c]) s)"

fun escapeValue :: "js_value \<Rightarrow> string" where
  "escapeValue JNull = ''NULL''"
| "escapeValue JUndefined = ''NULL''"
| "escapeValue (JString s) =
     (if s = ''CURRENT_TIMESTAMP'' then s else [CHR 0x27] @ replace_quotes s @ [CHR 0x27])"
| "escapeValue (JBoolean b) = (if b then ''1'' else ''0'')"
| "escapeValue (JDate isoText) = [CHR 0x27] @ isoText @ [CHR 0x27]"
| "escapeValue (JNumber n) = numberToString n"
| "escapeValue (JOther s) = s"

subsection \<open>Column modifiers\<close>

definition primaryKey :: "TableBuilder \<Rightarrow> outcome" where
  "primaryKey tb = modifier ''PRIMARY KEY'' tb"

definition autoIncrement :: "TableBuilder \<Rightarrow> outcome" where
  "autoIncrement tb = modifier ''AUTOINCREMENT'' tb"

definition notNull :: "TableBuilder \<Rightarrow> outcome" where
  "notNull tb = modifier ''NOT NULL'' tb"

definition unique :: "TableBuilder \<Rightarrow> outcome" where
  "unique tb = modifier ''UNIQUE'' tb"

definition default_m :: "js_value \<Rightarrow> TableBuilder \<Rightarrow> outcome" where
  "default_m v tb = modifier (''DEFAULT '' @ escapeValue v) tb"

definition check :: "string \<Rightarrow> TableBuilder \<Rightarrow> outcome" where
  "check expression tb = modifier (''CHECK ('' @ expression @ '')'') tb"

definition collate :: "string \<Rightarrow> TableBuilder \<Rightarrow> outcome" where
  "collate collation tb = modifier (''COLLATE '' @ collation) tb"

subsection \<open>Column types\<close>

definition id_m :: "string option \<Rightarrow> TableBuilder \<Rightarrow> outcome" where
  "id_m name tb =
     (None, declare_column
        \<lparr>col_name = (case name of None \<Rightarrow> ''id'' | Some n \<Rightarrow> n), col_type = ''INTEGER'',
         modifiers = [''PRIMARY KEY'', ''AUTOINCREMENT'']\<rparr> tb)"

text \<open>The optional \<open>length\<close> is used when it is truthy: present and not zero.\<close>

definition string_m :: "string \<Rightarrow> int option \<Rightarrow> TableBuilder \<Rightarrow> outcome" where
  "string_m name len tb =
     (None, declare_column
        \<lparr>col_name = name,
         col_type = (case len of
                       None \<Rightarrow> ''TEXT''
                     | Some n \<Rightarrow> if n \<noteq> 0 then ''TEXT('' @ numberToString n @ '')'' else ''TEXT''),
         modifiers = []\<rparr> tb)"

definition text_m :: "string \<Rightarrow> TableBuilder \<Rightarrow> outcome" where
  "text_m name tb = string_m name None tb"

definition integer :: "string \<Rightarrow> TableBuilder \<Rightarrow> outcome" where
  "integer name tb =
     (None, declare_column \<lparr>col_name = name, col_type = ''INTEGER'', modifiers = []\<rparr> tb)"

definition real_m :: "string \<Rightarrow> TableBuilder \<Rightarrow> outcome" where
  "real_m name tb =
     (None, declare_column \<lparr>col_name = name, col_type = ''REAL'', modifiers = []\<rparr> tb)"

definition boolean :: "string \<Rightarrow> TableBuilder \<Rightarrow> outcome" where
  "boolean name tb =
     (None, declare_column \<lparr>col_name = name, col_type = ''INTEGER'', modifiers = []\<rparr> tb)"

definition blob :: "string \<Rightarrow> TableBuilder \<Rightarrow> outcome" where
  "blob name tb =
     (None, declare_column \<lparr>col_name = name, col_type = ''BLOB'', modifiers = []\<rparr> tb)"

definition date :: "string \<Rightarrow> TableBuilder \<Rightarrow> outcome" where
  "date name tb =
     default_m (JString ''CURRENT_TIMESTAMP'')
       (declare_column \<lparr>col_name = name, col_type = ''TEXT'', modifiers = []\<rparr> tb)"

definition timestamp :: "string \<Rightarrow> TableBuilder \<Rightarrow> outcome" where
  "timestamp name tb =
     (None, declare_column \<lparr>col_name = name, col_type = ''INTEGER'', modifiers = []\<rparr> tb)"

definition numeric :: "string \<Rightarrow> TableBuilder \<Rightarrow> outcome" where
  "numeric name tb =
     (None, declare_column \<lparr>col_name = name, col_type = ''NUMERIC'', modifiers = []\<rparr> tb)"

definition json :: "string \<Rightarrow> TableBuilder \<Rightarrow> outcome" where
  "json name tb =
     (None, declare_column \<lparr>col_name = name, col_type = ''TEXT'', modifiers = []\<rparr> tb)"

subsection \<open>Table constraints\<close>

definition foreignKey :: "string \<Rightarrow> TableBuilder \<Rightarrow> outcome" where
  "foreignKey columnName tb =
     (None, tb\<lparr>constraints := constraints tb @ [''FOREIGN KEY ('' @ columnName @ '')'']\<rparr>)"

text \<open>\<open>String.prototype.split\<close> with a one-character separator.\<close>

fun split_str :: "char \<Rightarrow> string \<Rightarrow> string list" where
  "split_str sep [] = [[]]"
| "split_str sep (c # s) =
     (if c = sep then [] # split_str sep s
      else (case split_str sep s of [] \<Rightarrow> [[c]] | p # ps \<Rightarrow> (c # p) # ps))"

text \<open>
  \<open>xs[xs.length - 1]\<close>: \<open>undefined\<close> (\<open>None\<close>) on an empty array. An element of an
  array of strings read into a template literal that is \<open>undefined\<close> prints as that word.
\<close>

definition last_element :: "'a list \<Rightarrow> 'a option" where
  "last_element xs = (if xs = [] then None else Some (xs ! (length xs - 1)))"

definition element_text :: "string list \<Rightarrow> nat \<Rightarrow> string" where
  "element_text xs i = (if i < length xs then xs ! i else ''undefined'')"

definition set_last :: "string \<Rightarrow> string list \<Rightarrow> string list" where
  "set_last s xs = xs[length xs - 1 := s]"

definition references_guard :: "TableBuilder \<Rightarrow> bool" where
  "references_guard tb =
     (case last_element (constraints tb) of
        None \<Rightarrow> False
      | Some lastConstraint \<Rightarrow> truthy_str lastConstraint \<and> startsWith lastConstraint ''FOREIGN KEY'')"

definition references :: "string \<Rightarrow> TableBuilder \<Rightarrow> outcome" where
  "references tableColumn tb =
     (let parts = split_str CHR ''.'' tableColumn;
          table = element_text parts 0;
          column = element_text parts 1
      in case last_element (constraints tb) of
           None \<Rightarrow> (None, tb)
         | Some lastConstraint \<Rightarrow>
             if truthy_str lastConstraint \<and> startsWith lastConstraint ''FOREIGN KEY''
             then (None, tb\<lparr>constraints :=
                     set_last (lastConstraint @ '' REFERENCES '' @ table @ ''('' @ column @ '')'')
                       (constraints tb)\<rparr>)
             else (None, tb))"

datatype fk_action = CASCADE | SET_NULL | SET_DEFAULT | RESTRICT | NO_ACTION

fun fk_action_text :: "fk_action \<Rightarrow> string" where
  "fk_action_text CASCADE = ''CASCADE''"
| "fk_action_text SET_NULL = ''SET NULL''"
| "fk_action_text SET_DEFAULT = ''SET DEFAULT''"
| "fk_action_text RESTRICT = ''RESTRICT''"
| "fk_action_text NO_ACTION = ''NO ACTION''"

definition action_guard :: "TableBuilder \<Rightarrow> bool" where
  "action_guard tb =
     (case last_element (constraints tb) of
        None \<Rightarrow> False
      | Some lastConstraint \<Rightarrow> truthy_str lastConstraint \<and> includes_str lastConstraint ''REFERENCES'')"

definition onDelete :: "fk_action \<Rightarrow> TableBuilder \<Rightarrow> outcome" where
  "onDelete action tb =
     (case last_element (constraints tb) of
        None \<Rightarrow> (None, tb)
      | Some lastConstraint \<Rightarrow>
          if truthy_str lastConstraint \<and> includes_str lastConstraint ''REFERENCES''
          then (None, tb\<lparr>constraints :=
                  set_last (lastConstraint @ '' ON DELETE '' @ fk_action_text action) (constraints tb)\<rparr>)
          else (None, tb))"

definition onUpdate :: "fk_action \<Rightarrow> TableBuilder \<Rightarrow> outcome" where
  "onUpdate action tb =
     (case last_element (constraints tb) of
        None \<Rightarrow> (None, tb)
      | Some lastConstraint \<Rightarrow>
          if truthy_str lastConstraint \<and> includes_str lastConstraint ''REFERENCES''
          then (None, tb\<lparr>constraints :=
                  set_last (lastConstraint @ '' ON UPDATE '' @ fk_action_text action) (constraints tb)\<rparr>)
          else (None, tb))"

definition primary :: "string_or_array \<Rightarrow> TableBuilder \<Rightarrow> outcome" where
  "primary cols tb =
     (None, tb\<lparr>constraints := constraints tb @ [''PRIMARY KEY ('' @ columnList cols @ '')'']\<rparr>)"

definition uniqueConstraint :: "string_or_array \<Rightarrow> TableBuilder \<Rightarrow> outcome" where
  "uniqueConstraint cols tb =
     (None, tb\<lparr>constraints := constraints tb @ [''UNIQUE ('' @ columnList cols @ '')'']\<rparr>)"

definition checkConstraint :: "string \<Rightarrow> TableBuilder \<Rightarrow> outcome" where
  "checkConstraint expression tb =
     (None, tb\<lparr>constraints := constraints tb @ [''CHECK ('' @ expression @ '')'']\<rparr>)"

subsection \<open>Building\<close>

record TableBuilderResult =
  result_columns :: "string list"
  result_constraints :: "string list"

definition definition_of :: "ColumnBuilder \<Rightarrow> string" where
  "definition_of col =
     (let definition = col_name col @ '' '' @ col_type col
      in if length (modifiers col) > 0
         then definition @ '' '' @ array_join '' '' (modifiers col)
         else definition)"

text \<open>\<open>build()\<close> returns its result and leaves the builder as the second component.\<close>

definition build :: "TableBuilder \<Rightarrow> TableBuilderResult \<times> TableBuilder" where
  "build tb =
     (\<lparr>result_columns = map definition_of (columns tb), result_constraints = constraints tb\<rparr>, tb)"

subsection \<open>Fluent chains of calls\<close>

datatype column_call =
    Call_id "string option"
  | Call_string string "int option"
  | Call_text string
  | Call_integer string
  | Call_real string
  | Call_boolean string
  | Call_blob string
  | Call_date string
  | Call_timestamp string
  | Call_numeric string
  | Call_json string

fun call_column :: "column_call \<Rightarrow> TableBuilder \<Rightarrow> outcome" where
  "call_column (Call_id name) tb = id_m name tb"
| "call_column (Call_string name len) tb = string_m name len tb"
| "call_column (Call_text name) tb = text_m name tb"
| "call_column (Call_integer name) tb = integer name tb"
| "call_column (Call_real name) tb = real_m name tb"
| "call_column (Call_boolean name) tb = boolean name tb"
| "call_column (Call_blob name) tb = blob name tb"
| "call_column (Call_date name) tb = date name tb"
| "call_column (Call_timestamp name) tb = timestamp name tb"
| "call_column (Call_numeric name) tb = numeric name tb"
| "call_column (Call_json name) tb = json name tb"

datatype modifier_call =
    Call_primaryKey
  | Call_autoIncrement
  | Call_notNull
  | Call_unique
  | Call_default js_value
  | Call_check string
  | Call_collate string

fun call_modifier :: "modifier_call \<Rightarrow> TableBuilder \<Rightarrow> outcome" where
  "call_modifier Call_primaryKey tb = primaryKey tb"
| "call_modifier Call_autoIncrement tb = autoIncrement tb"
| "call_modifier Call_notNull tb = notNull tb"
| "call_modifier Call_unique tb = unique tb"
| "call_modifier (Call_default v) tb = default_m v tb"
| "call_modifier (Call_check expression) tb = check expression tb"
| "call_modifier (Call_collate collation) tb = collate collation tb"

text \<open>A chain \<open>b.m1().m2()...\<close> stops at the first call that throws.\<close>

fun call_modifiers :: "modifier_call list \<Rightarrow> TableBuilder \<Rightarrow> outcome" where
  "call_modifiers [] tb = (None, tb)"
| "call_modifiers (m # ms) tb =
     (case call_modifier m tb of
        (Some e, tb') \<Rightarrow> (Some e, tb')
      | (None, tb') \<Rightarrow> call_modifiers ms tb')"

text \<open>The SQL fragment each modifier call pushes, read off the method bodies.\<close>

fun modifier_fragment :: "modifier_call \<Rightarrow> string" where
  "modifier_fragment Call_primaryKey = ''PRIMARY KEY''"
| "modifier_fragment Call_autoIncrement = ''AUTOINCREMENT''"
| "modifier_fragment Call_notNull = ''NOT NULL''"
| "modifier_fragment Call_unique = ''UNIQUE''"
| "modifier_fragment (Call_default v) = ''DEFAULT '' @ escapeValue v"
| "modifier_fragment (Call_check expression) = ''CHECK ('' @ expression @ '')''"
| "modifier_fragment (Call_collate collation) = ''COLLATE '' @ collation"

section \<open>SQLiteTool\<close>

subsection \<open>The engine and the connection\<close>

text \<open>
  The database engine is outside the repository: it is a parameter. \<open>'db\<close> is the state
  of the database behind the handle, \<open>'v\<close> a bound parameter value, \<open>'row\<close> a result row.
  \<^item> \<open>exec sql\<close> runs a statement;
  \<^item> \<open>get_count sql values\<close> is \<open>get(sql, values)\<close> followed by the read of the row's
    \<open>count\<close>;
  \<^item> \<open>all_rows sql values\<close> is \<open>prepare(sql)\<close>, \<open>all(...values)\<close> and \<open>finalize()\<close>.
  Each may throw, and each leaves the database in a new state.
\<close>

record ('db, 'v, 'row) engine =
  exec :: "string \<Rightarrow> 'db \<Rightarrow> error option \<times> 'db"
  get_count :: "string \<Rightarrow> 'v list \<Rightarrow> 'db \<Rightarrow> (error + int) \<times> 'db"
  all_rows :: "string \<Rightarrow> 'v list \<Rightarrow> 'db \<Rightarrow> (error + 'row list) \<times> 'db"

text \<open>
  The facade's connection state: \<open>_db\<close> (\<open>None\<close> for \<open>null\<close>) and \<open>_isConnected\<close>.
  \<open>_log\<close> only writes to the configured logger and is left out, with the configuration.
\<close>

record 'db SQLiteTool =
  dbPath :: string
  db :: "'db option"
  isConnected :: bool

definition not_connected :: error where
  "not_connected = Error ''Database is not connected. Call connect() first.''"

text \<open>\<open>_ensureConnected()\<close>: throws, or lets the caller go on with the handle.\<close>

definition ensureConnected :: "'db SQLiteTool \<Rightarrow> error + 'db" where
  "ensureConnected f =
     (if \<not> isConnected f then Inl not_connected
      else case db f of None \<Rightarrow> Inl not_connected | Some d \<Rightarrow> Inr d)"

text \<open>
  \<open>close()\<close>. The engine's own \<open>close\<close> of the handle is a parameter: it may throw, and
  then the facade stays as it was; otherwise the facade forgets the handle.
\<close>

definition close :: "('db \<Rightarrow> error option \<times> 'db) \<Rightarrow> 'db SQLiteTool \<Rightarrow> error option \<times> 'db SQLiteTool" where
  "close db_close f =
     (if \<not> isConnected f then (None, f)
      else case db f of
             None \<Rightarrow> (None, f)
           | Some d \<Rightarrow>
               (case db_close d of
                  (Some e, d') \<Rightarrow> (Some e, f\<lparr>db := Some d'\<rparr>)
                | (None, d') \<Rightarrow> (None, f\<lparr>isConnected := False, db := None\<rparr>)))"

subsection \<open>find and count\<close>

text \<open>
  One entry of \<open>conditions\<close>, by the branch that \<open>find\<close> and \<open>count\<close> take on it: an array,
  an object with an \<open>operator\<close> key (its \<open>operator\<close> and \<open>value\<close>), anything else.
\<close>

datatype 'v condition = Values "'v list" | Condition string 'v | Literal 'v

record FindOptions =
  opt_columns :: "string list option"
  opt_orderBy :: "string_or_array option"
  opt_direction :: "direction option"
  opt_limit :: "int option"
  opt_offset :: "int option"
  opt_groupBy :: "string_or_array option"
  opt_having :: "string option"
  opt_distinct :: "bool option"

definition no_options :: FindOptions where
  "no_options =
     \<lparr>opt_columns = None, opt_orderBy = None, opt_direction = None, opt_limit = None,
      opt_offset = None, opt_groupBy = None, opt_having = None, opt_distinct = None\<rparr>"

text \<open>Truthiness of a number, and of a string or array.\<close>

definition truthy_num :: "int \<Rightarrow> bool" where
  "truthy_num n = (n \<noteq> 0)"

definition truthy_soa :: "string_or_array \<Rightarrow> bool" where
  "truthy_soa x = (case x of One s \<Rightarrow> truthy_str s | Many _ \<Rightarrow> True)"

definition add_condition :: "'v list QueryBuilder \<Rightarrow> string \<times> 'v condition \<Rightarrow> 'v list QueryBuilder" where
  "add_condition q entry =
     (case entry of
        (key, Values vs) \<Rightarrow> whereIn key vs q
      | (key, Condition operator v) \<Rightarrow> where_m key operator v q
      | (key, Literal v) \<Rightarrow> where_m key ''='' v q)"

text \<open>The \<open>if\<close> statements of \<open>find\<close> that apply the options, one function each.\<close>

definition with_columns :: "FindOptions \<Rightarrow> 'v list QueryBuilder \<Rightarrow> 'v list QueryBuilder" where
  "with_columns options q = (case opt_columns options of None \<Rightarrow> q | Some cs \<Rightarrow> select cs q)"

definition with_orderBy :: "FindOptions \<Rightarrow> 'v list QueryBuilder \<Rightarrow> 'v list QueryBuilder" where
  "with_orderBy options q =
     (case opt_orderBy options of
        None \<Rightarrow> q
      | Some ob \<Rightarrow>
          if truthy_soa ob then orderBy (columnList ob) (opt_direction options) q else q)"

definition with_limit :: "FindOptions \<Rightarrow> 'v list QueryBuilder \<Rightarrow> 'v list QueryBuilder" where
  "with_limit options q =
     (case opt_limit options of
        None \<Rightarrow> q
      | Some n \<Rightarrow>
          if truthy_num n
          then (let q1 = limit n q
                in case opt_offset options of
                     None \<Rightarrow> q1
                   | Some m \<Rightarrow> if truthy_num m then offset m q1 else q1)
          else q)"

definition with_groupBy :: "FindOptions \<Rightarrow> 'v list QueryBuilder \<Rightarrow> 'v list QueryBuilder" where
  "with_groupBy options q =
     (case opt_groupBy options of
        None \<Rightarrow> q
      | Some gb \<Rightarrow> if truthy_soa gb then groupBy gb q else q)"

definition with_having :: "FindOptions \<Rightarrow> 'v list QueryBuilder \<Rightarrow> 'v list QueryBuilder" where
  "with_having options q =
     (case opt_having options of
        None \<Rightarrow> q
      | Some h \<Rightarrow> if truthy_str h then having h [] q else q)"

text \<open>The query that \<open>find\<close> has built when it calls \<open>toSQL()\<close>.\<close>

definition find_query :: "string \<Rightarrow> (string \<times> 'v condition) list \<Rightarrow> FindOptions \<Rightarrow> 'v list QueryBuilder" where
  "find_query table conditions options =
     (let q0 = new_QueryBuilder table;
          q1 = with_columns options q0;
          q2 = foldl add_condition q1 conditions;
          q3 = with_orderBy options q2;
          q4 = with_limit options q3;
          q5 = with_groupBy options q4;
          q6 = with_having options q5
      in q6)"

text \<open>\<open>find\<close>, with a suffix as the name is taken.\<close>

definition find_m :: "('db, 'v, 'row) engine \<Rightarrow> string \<Rightarrow> (string \<times> 'v condition) list \<Rightarrow>
    FindOptions \<Rightarrow> 'db SQLiteTool \<Rightarrow> (error + 'row list) \<times> 'db SQLiteTool" where
  "find_m eng table conditions options f =
     (case ensureConnected f of
        Inl e \<Rightarrow> (Inl e, f)
      | Inr d \<Rightarrow>
          (let r = toSQL (find_query table conditions options)
           in case all_rows eng (sql r) (values_of r) d of
                (res, d') \<Rightarrow> (res, f\<lparr>db := Some d'\<rparr>)))"

definition count_query :: "string \<Rightarrow> (string \<times> 'v condition) list \<Rightarrow> 'v list QueryBuilder" where
  "count_query table conditions = foldl add_condition (new_QueryBuilder table) conditions"

definition count :: "('db, 'v, 'row) engine \<Rightarrow> string \<Rightarrow> (string \<times> 'v condition) list \<Rightarrow>
    'db SQLiteTool \<Rightarrow> (error + int) \<times> 'db SQLiteTool" where
  "count eng table conditions f =
     (case ensureConnected f of
        Inl e \<Rightarrow> (Inl e, f)
      | Inr d \<Rightarrow>
          (let r = toCountSQL (count_query table conditions)
           in case get_count eng (sql r) (values_of r) d of
                (res, d') \<Rightarrow> (res, f\<lparr>db := Some d'\<rparr>)))"

subsection \<open>findPaginated\<close>

text \<open>
  \<open>Math.ceil(total / limit)\<close> on integers: the quotient is a finite number unless the
  divisor is zero, where it is an infinity or \<open>NaN\<close>. For integers of the safe range
  the rounded quotient lies on the same side of every integer as the exact one, so the
  ceiling is that of the exact quotient.
\<close>

datatype js_number = Finite int | PosInfinity | NegInfinity | NaN

definition ceil_quotient :: "int \<Rightarrow> int \<Rightarrow> js_number" where
  "ceil_quotient a b =
     (if b = 0 then (if a = 0 then NaN else if 0 < a then PosInfinity else NegInfinity)
      else Finite \<lceil>real_of_int a / real_of_int b\<rceil>)"

text \<open>\<open>n < x\<close> for an integer \<open>n\<close>.\<close>

fun less_js :: "int \<Rightarrow> js_number \<Rightarrow> bool" where
  "less_js n (Finite m) = (n < m)"
| "less_js n PosInfinity = True"
| "less_js n NegInfinity = False"
| "less_js n NaN = False"

record PaginationOptions =
  pg_page :: int
  pg_limit :: int

record Pagination =
  page :: int
  limit_of :: int
  total :: int
  totalPages :: js_number
  hasNext :: bool
  hasPrev :: bool

record 'row PaginatedResult =
  data :: "'row list"
  pagination :: Pagination

definition findPaginated :: "('db, 'v, 'row) engine \<Rightarrow> string \<Rightarrow> (string \<times> 'v condition) list \<Rightarrow>
    PaginationOptions \<Rightarrow> FindOptions \<Rightarrow> 'db SQLiteTool \<Rightarrow>
    (error + 'row PaginatedResult) \<times> 'db SQLiteTool" where
  "findPaginated eng table conditions pg options f =
     (case count eng table conditions f of
        (Inl e, f1) \<Rightarrow> (Inl e, f1)
      | (Inr tot, f1) \<Rightarrow>
          (let pages = ceil_quotient tot (pg_limit pg)
           in case find_m eng table conditions
                     (options\<lparr>opt_limit := Some (pg_limit pg),
                              opt_offset := Some ((pg_page pg - 1) * pg_limit pg)\<rparr>) f1 of
                (Inl e, f2) \<Rightarrow> (Inl e, f2)
              | (Inr rows, f2) \<Rightarrow>
                  (Inr \<lparr>data = rows,
                        pagination =
                          \<lparr>page = pg_page pg, limit_of = pg_limit pg, total = tot,
                           totalPages = pages, hasNext = less_js (pg_page pg) pages,
                           hasPrev = (pg_page pg > 1)\<rparr>\<rparr>, f2)))"

subsection \<open>transaction\<close>









text \<open>
  An engine that also keeps the list of the statements it was given, in order: the way
  to say which statements a facade operation has issued.
\<close>

definition traced :: "('db, 'v, 'row) engine \<Rightarrow> (string list \<times> 'db, 'v, 'row) engine" where
  "traced eng =
     \<lparr>exec = (\<lambda>s (tr, d). case exec eng s d of (r, d') \<Rightarrow> (r, (tr @ [s], d'))),
      get_count = (\<lambda>s vs (tr, d). case get_count eng s vs d of (r, d') \<Rightarrow> (r, (tr @ [s], d'))),
      all_rows = (\<lambda>s vs (tr, d). case all_rows eng s vs d of (r, d') \<Rightarrow> (r, (tr @ [s], d')))\<rparr>"

section \<open>Notions used in the statements\<close>

text \<open>A sequence of \<open>where(column, operator, value)\<close> calls, made in order on a builder.\<close>

fun where_calls :: "(string \<times> string \<times> 'v) list \<Rightarrow> 'v list QueryBuilder \<Rightarrow> 'v list QueryBuilder" where
  "where_calls [] q = q"
| "where_calls ((column, operator, v) # calls) q = where_calls calls (where_m column operator v q)"

text \<open>The predicate fragment one such call writes, and the number of \<open>?\<close> in a text.\<close>

definition where_fragment :: "string \<times> string \<times> 'v \<Rightarrow> string" where
  "where_fragment call = (case call of (column, operator, v) \<Rightarrow> column @ '' '' @ operator @ '' ?'')"

definition qmarks :: "string \<Rightarrow> nat" where
  "qmarks s = count_list s CHR ''?''"

text \<open>A call whose column name and operator contain no \<open>?\<close>.\<close>

definition call_ok :: "string \<times> string \<times> 'v \<Rightarrow> bool" where
  "call_ok call = (case call of (column, operator, v) \<Rightarrow> CHR ''?'' \<notin> set column \<and> CHR ''?'' \<notin> set operator)"

text \<open>
  A clause that is rendered, after a space, when it is not empty; and a list of fragments
  that is rendered, after its keyword and joined by a separator, when it is not empty.
\<close>

definition clause :: "string \<Rightarrow> string" where
  "clause c = (if truthy_str c then '' '' @ c else [])"

definition list_clause :: "string \<Rightarrow> string \<Rightarrow> string list \<Rightarrow> string" where
  "list_clause keyword sep xs = (if length xs > 0 then keyword @ array_join sep xs else [])"

text \<open>
  A builder with every clause set, built by the fluent calls, and a builder object with
  the same fields whose parameter array is at address 0.
\<close>

definition example_builder :: "'v \<Rightarrow> 'v list QueryBuilder" where
  "example_builder v =
     offset 20 (limit 10 (orderBy ''name'' None (having ''COUNT(*) > 1'' [] (groupBy (Many [''name'', ''age''])
       (where_m ''age'' ''>'' v (leftJoin ''orders'' ''users.id'' ''='' ''orders.user_id''
         (distinct_m (select [''name'', ''age''] (new_QueryBuilder ''users'')))))))))"

definition example_object :: "addr QueryBuilder" where
  "example_object =
     \<lparr>tableName = ''users'', selectColumns = [''name'', ''age''], whereConditions = [''age > ?''],
      whereValues = 0, orderByClause = ''ORDER BY name ASC'', groupByClause = ''GROUP BY name, age'',
      havingClause = ''HAVING COUNT(*) > 1'', limitClause = ''LIMIT 10'', offsetClause = ''OFFSET 20'',
      distinct_q = True, joins = [''LEFT JOIN orders ON users.id = orders.user_id'']\<rparr>"

text \<open>
  The column that each column method declares, read off the method bodies, and a list of
  modifier fragments written out with a space before each.
\<close>

fun declared :: "column_call \<Rightarrow> ColumnBuilder" where
  "declared (Call_id name) =
     \<lparr>col_name = (case name of None \<Rightarrow> ''id'' | Some n \<Rightarrow> n), col_type = ''INTEGER'',
      modifiers = [''PRIMARY KEY'', ''AUTOINCREMENT'']\<rparr>"
| "declared (Call_string name len) =
     \<lparr>col_name = name,
      col_type = (case len of None \<Rightarrow> ''TEXT''
                  | Some n \<Rightarrow> if n = 0 then ''TEXT'' else ''TEXT('' @ numberToString n @ '')''),
      modifiers = []\<rparr>"
| "declared (Call_text name) = \<lparr>col_name = name, col_type = ''TEXT'', modifiers = []\<rparr>"
| "declared (Call_integer name) = \<lparr>col_name = name, col_type = ''INTEGER'', modifiers = []\<rparr>"
| "declared (Call_real name) = \<lparr>col_name = name, col_type = ''REAL'', modifiers = []\<rparr>"
| "declared (Call_boolean name) = \<lparr>col_name = name, col_type = ''INTEGER'', modifiers = []\<rparr>"
| "declared (Call_blob name) = \<lparr>col_name = name, col_type = ''BLOB'', modifiers = []\<rparr>"
| "declared (Call_date name) =
     \<lparr>col_name = name, col_type = ''TEXT'', modifiers = [''DEFAULT CURRENT_TIMESTAMP'']\<rparr>"
| "declared (Call_timestamp name) = \<lparr>col_name = name, col_type = ''INTEGER'', modifiers = []\<rparr>"
| "declared (Call_numeric name) = \<lparr>col_name = name, col_type = ''NUMERIC'', modifiers = []\<rparr>"
| "declared (Call_json name) = \<lparr>col_name = name, col_type = ''TEXT'', modifiers = []\<rparr>"

definition spaced :: "string list \<Rightarrow> string" where
  "spaced ms = concat (map (\<lambda>m. '' '' @ m) ms)"

text \<open>A builder on which only \<open>foreignKey('user_id')\<close> has been called.\<close>

definition fk_declared :: TableBuilder where
  "fk_declared = snd (foreignKey ''user_id'' (new_TableBuilder ''orders''))"

text \<open>
  An engine on a database with no state of its own, in which every statement succeeds,
  the count is 25 and a page of ten rows comes back; the same engine with a ROLLBACK
  that fails; a connected facade; and the options of a \<open>transaction\<close> call without any.
\<close>

definition example_engine :: "(unit, js_value, nat) engine" where
  "example_engine =
     \<lparr>exec = (\<lambda>s d. (None, d)),
      get_count = (\<lambda>s vs d. (Inr 25, d)),
      all_rows = (\<lambda>s vs d. (Inr [11, 12, 13, 14, 15, 16, 17, 18, 19, 20], d))\<rparr>"

definition connected_facade :: "'db \<Rightarrow> 'db SQLiteTool" where
  "connected_facade d = \<lparr>dbPath = ''app.sqlite'', db = Some d, isConnected = True\<rparr>"






section \<open>Properties\<close>

subsection \<open>Auxiliary facts\<close>

lemma array_pop_eq: "array_pop xs = (if xs = [] then (None, []) else (Some (last xs), butlast xs))"
  by (induction xs rule: array_pop.induct) auto

lemma where_calls_conditions:
  "whereConditions (where_calls calls q) = whereConditions q @ map where_fragment calls"
  by (induction calls q rule: where_calls.induct) (simp_all add: where_m_def where_fragment_def)

lemma where_calls_values:
  "whereValues (where_calls calls q) = whereValues q @ map (\<lambda>c. snd (snd c)) calls"
  by (induction calls q rule: where_calls.induct) (simp_all add: where_m_def)

lemma where_calls_other:
  "tableName (where_calls calls q) = tableName q"
  "selectColumns (where_calls calls q) = selectColumns q"
  "joins (where_calls calls q) = joins q"
  "distinct_q (where_calls calls q) = distinct_q q"
  "groupByClause (where_calls calls q) = groupByClause q"
  "havingClause (where_calls calls q) = havingClause q"
  "orderByClause (where_calls calls q) = orderByClause q"
  "limitClause (where_calls calls q) = limitClause q"
  "offsetClause (where_calls calls q) = offsetClause q"
  by (induction calls q rule: where_calls.induct) (simp_all add: where_m_def)

lemma array_join_snoc:
  "array_join sep (xs @ [x]) = (if xs = [] then x else array_join sep xs @ sep @ x)"
  by (induction sep xs rule: array_join.induct) auto

lemma array_join_Cons: "ys \<noteq> [] \<Longrightarrow> array_join sep (x # ys) = x @ sep @ array_join sep ys"
  by (cases ys) auto

lemma array_join_append:
  "xs \<noteq> [] \<Longrightarrow> ys \<noteq> [] \<Longrightarrow> array_join sep (xs @ ys) = array_join sep xs @ sep @ array_join sep ys"
  by (induction sep xs rule: array_join.induct) (auto simp: array_join_Cons)

lemma qmarks_append [simp]: "qmarks (a @ b) = qmarks a + qmarks b"
  by (induction a) (auto simp: qmarks_def)

lemma qmarks_none: "CHR ''?'' \<notin> set s \<Longrightarrow> qmarks s = 0"
  by (induction s) (auto simp: qmarks_def)

lemma qmarks_Cons: "qmarks (c # s) = (if c = CHR ''?'' then 1 else 0) + qmarks s"
  by (simp add: qmarks_def)

lemma qmarks_Nil [simp]: "qmarks [] = 0"
  by (simp add: qmarks_def)

lemma qmarks_fragment: "call_ok c \<Longrightarrow> qmarks (where_fragment c) = 1"
  by (cases c) (simp add: call_ok_def where_fragment_def qmarks_none qmarks_Cons)

lemma qmarks_join_fragments:
  "list_all call_ok calls \<Longrightarrow> qmarks (array_join '' AND '' (map where_fragment calls)) = length calls"
proof (induction calls rule: rev_induct)
  case Nil
  then show ?case by simp
next
  case (snoc c calls)
  then show ?case
    by (simp add: array_join_snoc qmarks_fragment qmarks_Cons)
qed


lemma array_join_mid:
  "array_join sep (xs @ x # ys) =
     (if xs = [] then [] else array_join sep xs @ sep) @ x @ (if ys = [] then [] else sep @ array_join sep ys)"
proof (cases "xs = []")
  case True
  then show ?thesis by (cases ys) auto
next
  case False
  then have "array_join sep (xs @ x # ys) = array_join sep xs @ sep @ array_join sep (x # ys)"
    by (simp add: array_join_append)
  with False show ?thesis by (cases ys) simp_all
qed

lemma toSQL_values: "values_of (toSQL q) = whereValues q"
  by (simp add: toSQL_def Let_def)

lemma toCountSQL_values: "values_of (toCountSQL q) = whereValues q"
  by (simp add: toCountSQL_def Let_def)

lemma append_if: "(if c then s @ x else s) = s @ (if c then x else [])"
  by simp

lemma clause_simps:
  "clause [] = []"
  "clause (c # cs) = '' '' @ c # cs"
  "list_clause keyword sep [] = []"
  "list_clause keyword sep (x # xs) = keyword @ array_join sep (x # xs)"
  by (simp_all add: clause_def list_clause_def truthy_str_def)

lemma toSQL_sql:
  "sql (toSQL q) =
     ''SELECT '' @ (if distinct_q q then ''DISTINCT '' else []) @ array_join '', '' (selectColumns q)
       @ '' FROM '' @ tableName q
       @ list_clause '' '' '' '' (joins q)
       @ list_clause '' WHERE '' '' AND '' (whereConditions q)
       @ clause (groupByClause q) @ clause (havingClause q) @ clause (orderByClause q)
       @ clause (limitClause q) @ clause (offsetClause q)"
  unfolding toSQL_def Let_def clause_def list_clause_def
  by (simp only: append_if rendered.simps) (simp only: append_assoc)

lemma toCountSQL_sql:
  "sql (toCountSQL q) =
     ''SELECT COUNT(*) as count FROM '' @ tableName q
       @ list_clause '' '' '' '' (joins q)
       @ list_clause '' WHERE '' '' AND '' (whereConditions q)
       @ clause (groupByClause q) @ clause (havingClause q)"
  unfolding toCountSQL_def Let_def clause_def list_clause_def
  by (simp only: append_if rendered.simps) (simp only: append_assoc)

lemma toSQL_where_calls:
  "sql (toSQL (where_calls calls (new_QueryBuilder t))) =
     ''SELECT * FROM '' @ t @
       (if calls = [] then [] else '' WHERE '' @ array_join '' AND '' (map where_fragment calls))"
  by (simp add: toSQL_sql where_calls_conditions where_calls_other new_QueryBuilder_def clause_simps
      list_clause_def)

lemma values_toSQL_where_calls:
  "values_of (toSQL (where_calls calls (new_QueryBuilder t))) = map (\<lambda>c. snd (snd c)) calls"
  by (simp add: toSQL_values where_calls_values new_QueryBuilder_def)

lemma view_alloc: "view st qo = Some q \<Longrightarrow> view (st @ [xs]) qo = Some q"
  by (auto simp: view_def lookup_def nth_append split: option.splits if_splits)

lemma view_mutate_fresh:
  "view st qo = Some q \<Longrightarrow> view (mutate (length st) ys (st @ [xs])) qo = Some q"
  by (auto simp: view_def lookup_def mutate_def nth_append nth_list_update split: option.splits if_splits)

lemma view_values: "view st qo = Some q \<Longrightarrow> lookup st (whereValues qo) = Some (whereValues q)"
  by (auto simp: view_def split: option.splits)

lemma view_addr: "view st qo = Some q \<Longrightarrow> whereValues qo < length st"
  by (auto simp: view_def lookup_def split: option.splits if_splits)

lemma numberToString_examples: "numberToString 10 = ''10''" "numberToString 20 = ''20''"
  by (simp_all add: numberToString_def digit_def)

lemma example_view: "view [[v]] example_object = Some (example_builder v)"
  by (simp add: view_def lookup_def example_object_def example_builder_def offset_def limit_def orderBy_def
      having_def groupBy_def where_m_def leftJoin_def join_m_def distinct_m_def select_def
      new_QueryBuilder_def columnList_def numberToString_examples)

lemma call_modifier_eq: "call_modifier m tb = modifier (modifier_fragment m) tb"
  by (cases m) (simp_all add: primaryKey_def autoIncrement_def notNull_def unique_def default_m_def
      check_def collate_def)

lemma call_column_eq:
  "call_column c tb =
     (None, tb\<lparr>currentColumn := Some (length (columns tb)), columns := columns tb @ [declared c]\<rparr>)"
  by (cases c)
    (simp_all add: id_m_def string_m_def text_m_def integer_def real_m_def boolean_def blob_def
      date_def timestamp_def numeric_def json_def declare_column_def default_m_def modifier_def
      push_modifier_def split: option.splits)

lemma call_modifiers_current:
  assumes "currentColumn tb = Some i" "i < length (columns tb)"
  shows "call_modifiers ms tb =
     (None, tb\<lparr>columns := (columns tb)[i := (columns tb ! i)
               \<lparr>modifiers := modifiers (columns tb ! i) @ map modifier_fragment ms\<rparr>]\<rparr>)"
  using assms
proof (induction ms arbitrary: tb)
  case Nil
  then show ?case by simp
next
  case (Cons m ms)
  let ?tb = "push_modifier i (modifier_fragment m) tb"
  have 1: "call_modifier m tb = (None, ?tb)"
    using Cons.prems by (simp add: call_modifier_eq modifier_def)
  have 2: "currentColumn ?tb = Some i" "i < length (columns ?tb)"
    using Cons.prems by (simp_all add: push_modifier_def)
  show ?case
    using Cons.prems by (simp add: 1 Cons.IH [OF 2]) (simp add: push_modifier_def)
qed

lemma spaced_Cons: "spaced (m # ms) = '' '' @ array_join '' '' (m # ms)"
proof (induction ms arbitrary: m)
  case Nil
  show ?case by (simp add: spaced_def)
next
  case (Cons a ms)
  have "spaced (m # a # ms) = '' '' @ m @ spaced (a # ms)"
    by (simp add: spaced_def)
  also have "\<dots> = '' '' @ m @ '' '' @ array_join '' '' (a # ms)"
    by (simp only: Cons.IH)
  finally show ?case by simp
qed

lemma spaced_eq: "spaced ms = (if ms = [] then [] else '' '' @ array_join '' '' ms)"
  by (cases ms) (simp add: spaced_def, simp only: spaced_Cons list.distinct if_False)

lemma definition_of_eq: "definition_of col = col_name col @ '' '' @ col_type col @ spaced (modifiers col)"
  by (simp add: definition_of_def spaced_eq Let_def)

lemma startsWith_iff: "startsWith s p \<longleftrightarrow> (\<exists>rest. s = p @ rest)"
proof
  assume "startsWith s p"
  then have "s = p @ drop (length p) s"
    by (metis append_take_drop_id startsWith_def)
  then show "\<exists>rest. s = p @ rest" ..
next
  assume "\<exists>rest. s = p @ rest"
  then show "startsWith s p" by (auto simp: startsWith_def)
qed

lemma includes_str_iff: "includes_str s p \<longleftrightarrow> (\<exists>a b. s = a @ p @ b)"
proof (induction s)
  case Nil
  then show ?case by simp
next
  case (Cons c s)
  show ?case
  proof
    assume "includes_str (c # s) p"
    then consider "startsWith (c # s) p" | "includes_str s p" by auto
    then show "\<exists>a b. c # s = a @ p @ b"
    proof cases
      case 1
      then obtain rest where "c # s = p @ rest" by (auto simp: startsWith_iff)
      then have "c # s = [] @ p @ rest" by simp
      then show ?thesis by blast
    next
      case 2
      then obtain a b where "s = a @ p @ b" using Cons.IH by blast
      then have "c # s = (c # a) @ p @ b" by simp
      then show ?thesis by blast
    qed
  next
    assume "\<exists>a b. c # s = a @ p @ b"
    then obtain a b where ab: "c # s = a @ p @ b" by blast
    show "includes_str (c # s) p"
    proof (cases a)
      case Nil
      with ab have "startsWith (c # s) p" by (simp add: startsWith_iff)
      then show ?thesis by simp
    next
      case (Cons c' a')
      with ab have "s = a' @ p @ b" by simp
      then have "includes_str s p" using Cons.IH by blast
      then show ?thesis by simp
    qed
  qed
qed

lemma last_element_snoc: "last_element (cs @ [l]) = Some l"
  by (simp add: last_element_def)

lemma last_element_eq: "last_element xs = (if xs = [] then None else Some (last xs))"
  by (simp add: last_element_def last_conv_nth)

lemma set_last_eq: "xs \<noteq> [] \<Longrightarrow> set_last s xs = butlast xs @ [s]"
  by (induction xs rule: rev_induct) (simp_all add: set_last_def)

lemma references_guard_iff:
  "references_guard tb \<longleftrightarrow> (\<exists>cs rest. constraints tb = cs @ [''FOREIGN KEY'' @ rest])"
proof (cases "constraints tb" rule: rev_cases)
  case Nil
  then show ?thesis by (simp add: references_guard_def last_element_def)
next
  case (snoc cs l)
  then show ?thesis
    by (auto simp: references_guard_def last_element_snoc startsWith_iff truthy_str_def)
qed

lemma action_guard_iff:
  "action_guard tb \<longleftrightarrow> (\<exists>cs a b. constraints tb = cs @ [a @ ''REFERENCES'' @ b])"
proof (cases "constraints tb" rule: rev_cases)
  case Nil
  then show ?thesis by (simp add: action_guard_def last_element_def)
next
  case (snoc cs l)
  then show ?thesis
    by (auto simp: action_guard_def last_element_snoc includes_str_iff truthy_str_def)
qed

lemma fk_declared_eq:
  "fk_declared = \<lparr>tb_tableName = ''orders'', columns = [], constraints = [''FOREIGN KEY (user_id)''],
      currentColumn = None\<rparr>"
  by (simp add: fk_declared_def foreignKey_def new_TableBuilder_def)

lemma fk_declared_guards: "references_guard fk_declared" "\<not> action_guard fk_declared"
  by (simp_all add: fk_declared_eq references_guard_def action_guard_def last_element_def
      truthy_str_def startsWith_def)

lemma split_example: "split_str CHR ''.'' ''users.id'' = [''users'', ''id'']"
  by simp

lemma add_condition_fields:
  "tableName (add_condition q e) = tableName q"
  "selectColumns (add_condition q e) = selectColumns q"
  "joins (add_condition q e) = joins q"
  "distinct_q (add_condition q e) = distinct_q q"
  "groupByClause (add_condition q e) = groupByClause q"
  "havingClause (add_condition q e) = havingClause q"
  "orderByClause (add_condition q e) = orderByClause q"
  "limitClause (add_condition q e) = limitClause q"
  "offsetClause (add_condition q e) = offsetClause q"
  by (cases e; cases "snd e"; simp add: add_condition_def whereIn_def where_m_def)+

lemma foldl_add_condition_fields:
  "tableName (foldl add_condition q es) = tableName q"
  "selectColumns (foldl add_condition q es) = selectColumns q"
  "joins (foldl add_condition q es) = joins q"
  "distinct_q (foldl add_condition q es) = distinct_q q"
  "groupByClause (foldl add_condition q es) = groupByClause q"
  "havingClause (foldl add_condition q es) = havingClause q"
  "orderByClause (foldl add_condition q es) = orderByClause q"
  "limitClause (foldl add_condition q es) = limitClause q"
  "offsetClause (foldl add_condition q es) = offsetClause q"
  by (induction es arbitrary: q; simp add: add_condition_fields)+


lemma traced_all_rows: "all_rows (traced eng) stmt vs s = (r, s') \<Longrightarrow> fst s' = fst s @ [stmt]"
  by (cases s) (auto simp: traced_def split: prod.splits)

lemma with_limit_clauses:
  "limitClause (with_limit options q) =
     (case opt_limit options of
        None \<Rightarrow> limitClause q
      | Some n \<Rightarrow> if n = 0 then limitClause q else ''LIMIT '' @ numberToString n)"
  "offsetClause (with_limit options q) =
     (case opt_limit options of
        None \<Rightarrow> offsetClause q
      | Some n \<Rightarrow>
          if n = 0 then offsetClause q
          else (case opt_offset options of
                  None \<Rightarrow> offsetClause q
                | Some m \<Rightarrow> if m = 0 then offsetClause q else ''OFFSET '' @ numberToString m))"
  by (simp_all add: with_limit_def limit_def offset_def truthy_num_def Let_def split: option.splits)

lemma with_limit_none:
  "opt_limit options = None \<or> opt_limit options = Some 0 \<Longrightarrow> with_limit options q = q"
  by (auto simp: with_limit_def truthy_num_def)

lemma with_other_fields:
  "limitClause (with_columns options q) = limitClause q"
  "offsetClause (with_columns options q) = offsetClause q"
  "tableName (with_columns options q) = tableName q"
  "joins (with_columns options q) = joins q"
  "distinct_q (with_columns options q) = distinct_q q"
  "limitClause (with_orderBy options q) = limitClause q"
  "offsetClause (with_orderBy options q) = offsetClause q"
  "tableName (with_orderBy options q) = tableName q"
  "joins (with_orderBy options q) = joins q"
  "distinct_q (with_orderBy options q) = distinct_q q"
  "limitClause (with_groupBy options q) = limitClause q"
  "offsetClause (with_groupBy options q) = offsetClause q"
  "tableName (with_groupBy options q) = tableName q"
  "joins (with_groupBy options q) = joins q"
  "distinct_q (with_groupBy options q) = distinct_q q"
  "limitClause (with_having options q) = limitClause q"
  "offsetClause (with_having options q) = offsetClause q"
  "tableName (with_having options q) = tableName q"
  "joins (with_having options q) = joins q"
  "distinct_q (with_having options q) = distinct_q q"
  "tableName (with_limit options q) = tableName q"
  "joins (with_limit options q) = joins q"
  "distinct_q (with_limit options q) = distinct_q q"
  by (simp_all add: with_columns_def with_orderBy_def with_groupBy_def with_having_def with_limit_def
      select_def orderBy_def groupBy_def having_def limit_def offset_def Let_def split: option.splits)

lemma find_query_limit:
  "limitClause (find_query table conditions options) =
     (case opt_limit options of None \<Rightarrow> [] | Some n \<Rightarrow> if n = 0 then [] else ''LIMIT '' @ numberToString n)"
  by (simp add: find_query_def Let_def with_other_fields with_limit_clauses foldl_add_condition_fields
      new_QueryBuilder_def split: option.splits)

lemma find_query_offset:
  "offsetClause (find_query table conditions options) =
     (case opt_limit options of
        None \<Rightarrow> []
      | Some n \<Rightarrow>
          if n = 0 then []
          else (case opt_offset options of
                  None \<Rightarrow> []
                | Some m \<Rightarrow> if m = 0 then [] else ''OFFSET '' @ numberToString m))"
  by (simp add: find_query_def Let_def with_other_fields with_limit_clauses foldl_add_condition_fields
      new_QueryBuilder_def split: option.splits)

lemma with_options_cleared:
  "with_columns (options\<lparr>opt_limit := None, opt_offset := None\<rparr>) q = with_columns options q"
  "with_orderBy (options\<lparr>opt_limit := None, opt_offset := None\<rparr>) q = with_orderBy options q"
  "with_groupBy (options\<lparr>opt_limit := None, opt_offset := None\<rparr>) q = with_groupBy options q"
  "with_having (options\<lparr>opt_limit := None, opt_offset := None\<rparr>) q = with_having options q"
  "with_limit (options\<lparr>opt_limit := None, opt_offset := None\<rparr>) q = q"
  by (simp_all add: with_columns_def with_orderBy_def with_groupBy_def with_having_def with_limit_def
      split: option.splits)

lemma find_query_no_limit:
  "opt_limit options = None \<or> opt_limit options = Some 0 \<Longrightarrow>
   find_query table conditions options =
     find_query table conditions (options\<lparr>opt_limit := None, opt_offset := None\<rparr>)"
  by (simp add: find_query_def Let_def with_options_cleared with_limit_none)

lemma find_query_table: "tableName (find_query table conditions options) = table"
  by (simp add: find_query_def Let_def with_other_fields foldl_add_condition_fields new_QueryBuilder_def)

lemma find_query_joins: "joins (find_query table conditions options) = []"
  by (simp add: find_query_def Let_def with_other_fields foldl_add_condition_fields new_QueryBuilder_def)

lemma find_query_distinct: "\<not> distinct_q (find_query table conditions options)"
  by (simp add: find_query_def Let_def with_other_fields foldl_add_condition_fields new_QueryBuilder_def)

lemma find_query_examples:
  "find_query ''users'' [(''age'', Condition ''>='' v)] (no_options\<lparr>opt_offset := Some 20\<rparr>) =
     where_m ''age'' ''>='' v (new_QueryBuilder ''users'')"
  "find_query ''users'' [(''age'', Condition ''>='' v)] (no_options\<lparr>opt_limit := Some 0, opt_offset := Some 20\<rparr>) =
     where_m ''age'' ''>='' v (new_QueryBuilder ''users'')"
  "find_query ''users'' [(''age'', Condition ''>='' v)] (no_options\<lparr>opt_limit := Some 10, opt_offset := Some 20\<rparr>) =
     offset 20 (limit 10 (where_m ''age'' ''>='' v (new_QueryBuilder ''users'')))"
  by (simp_all add: find_query_def no_options_def with_columns_def with_orderBy_def with_limit_def
      with_groupBy_def with_having_def add_condition_def truthy_num_def)

lemma ceiling_quotient_bounds:
  fixes a b :: int
  assumes "0 < b"
  shows "(\<lceil>real_of_int a / real_of_int b\<rceil> - 1) * b < a \<and> a \<le> \<lceil>real_of_int a / real_of_int b\<rceil> * b"
proof -
  let ?n = "\<lceil>real_of_int a / real_of_int b\<rceil>"
  have b: "0 < real_of_int b" using assms by simp
  have "real_of_int ?n - 1 < real_of_int a / real_of_int b" by linarith
  then have "(real_of_int ?n - 1) * real_of_int b < real_of_int a"
    using pos_less_divide_eq [OF b] by blast
  then have 1: "(?n - 1) * b < a"
    by (metis of_int_1 of_int_diff of_int_less_iff of_int_mult)
  have "real_of_int a / real_of_int b \<le> real_of_int ?n" by linarith
  then have "real_of_int a \<le> real_of_int ?n * real_of_int b"
    using pos_divide_le_eq [OF b] by blast
  then have 2: "a \<le> ?n * b"
    by (metis of_int_le_iff of_int_mult)
  from 1 2 show ?thesis ..
qed

lemma ceiling_quotient_div:
  fixes a b :: int
  assumes "0 < b"
  shows "\<lceil>real_of_int a / real_of_int b\<rceil> = (a + b - 1) div b"
proof -
  let ?n = "\<lceil>real_of_int a / real_of_int b\<rceil>"
  let ?r = "a + b - 1 - b * ?n"
  from ceiling_quotient_bounds [OF assms, of a]
  have 1: "(?n - 1) * b < a" and 2: "a \<le> ?n * b" by simp_all
  have "0 \<le> ?r" using 1 by (simp add: algebra_simps)
  moreover have "?r < b" using 2 by (simp add: algebra_simps)
  moreover have "a + b - 1 = b * ?n + ?r" by simp
  ultimately have "(a + b - 1) div b = ?n"
    by (rule int_div_pos_eq [rotated])
  then show ?thesis by simp
qed






lemma qmarks_array_join:
  "qmarks sep = 0 \<Longrightarrow> qmarks (array_join sep xs) = sum_list (map qmarks xs)"
  by (induction sep xs rule: array_join.induct) simp_all

lemma qmarks_list_clause:
  "qmarks keyword = 0 \<Longrightarrow> qmarks sep = 0 \<Longrightarrow>
   qmarks (list_clause keyword sep xs) = sum_list (map qmarks xs)"
  by (simp add: list_clause_def qmarks_array_join)

lemma qmarks_fragments:
  "list_all call_ok calls \<Longrightarrow> sum_list (map (qmarks \<circ> where_fragment) calls) = length calls"
  by (induction calls) (simp_all add: qmarks_fragment)

lemma qmarks_where_calls:
  assumes "list_all call_ok calls"
  shows "qmarks (sql (toSQL (where_calls calls q))) = qmarks (sql (toSQL q)) + length calls"
proof -
  have k: "qmarks '' WHERE '' = 0" "qmarks '' AND '' = 0"
    by (simp_all add: qmarks_Cons)
  show ?thesis
    using assms
    by (simp add: toSQL_sql where_calls_conditions where_calls_other qmarks_list_clause [OF k]
        qmarks_fragments qmarks_Cons)
qed

subsection \<open>Empty value lists\<close>

text \<open>
  C3. For every column name and builder state, \<open>whereIn(column, [])\<close> appends the
  predicate fragment \<open>1 = 0\<close> and no parameter value, while \<open>whereNotIn(column, [])\<close>
  leaves the builder, and so both lists, unchanged. On a new builder the first renders
  \<open>WHERE 1 = 0\<close> and the second renders no WHERE clause.
\<close>

theorem whereIn_whereNotIn_empty:
  "whereIn column [] q = q\<lparr>whereConditions := whereConditions q @ [''1 = 0'']\<rparr>
   \<and> whereValues (whereIn column [] q) = whereValues q
   \<and> whereNotIn column [] q = q
   \<and> sql (toSQL (whereIn column [] (new_QueryBuilder t))) = ''SELECT * FROM '' @ t @ '' WHERE 1 = 0''
   \<and> sql (toSQL (whereNotIn column [] (new_QueryBuilder t))) = ''SELECT * FROM '' @ t"
  by (simp add: whereIn_def whereNotIn_def toSQL_def new_QueryBuilder_def truthy_str_def)

subsection \<open>Parameters and placeholders\<close>

text \<open>
  C1, amended. On a new builder whose table name contains no \<open>?\<close>, after any sequence of
  \<open>where\<close> calls whose column names and operators contain no \<open>?\<close>: \<open>toSQL().values\<close>
  has as many entries as \<open>toSQL().sql\<close> has \<open>?\<close> characters; the values are those of the
  calls, in call order; and the placeholder of the call number \<open>i\<close> (from 0) is preceded by
  exactly \<open>i\<close> other \<open>?\<close> in the SQL text, so that it is the one bound to entry \<open>i\<close>.
  On a builder \<open>q\<close> in any state, such calls add as many \<open>?\<close> to the SQL text as they add
  values.
\<close>

theorem where_values_match_placeholders:
  assumes ok: "list_all call_ok calls" and t: "CHR ''?'' \<notin> set t"
  shows "length (values_of (toSQL (where_calls calls (new_QueryBuilder t)))) =
           qmarks (sql (toSQL (where_calls calls (new_QueryBuilder t))))
       \<and> values_of (toSQL (where_calls calls (new_QueryBuilder t))) = map (\<lambda>c. snd (snd c)) calls
       \<and> (\<forall>i < length calls. \<exists>pre post.
            sql (toSQL (where_calls calls (new_QueryBuilder t))) = pre @ where_fragment (calls ! i) @ post
            \<and> qmarks pre = i)
       \<and> qmarks (sql (toSQL (where_calls calls q))) = qmarks (sql (toSQL q)) + length calls
       \<and> length (values_of (toSQL (where_calls calls q))) = length (values_of (toSQL q)) + length calls"
proof (intro conjI allI impI)
  show "qmarks (sql (toSQL (where_calls calls q))) = qmarks (sql (toSQL q)) + length calls"
    using ok by (rule qmarks_where_calls)
next
  show "length (values_of (toSQL (where_calls calls q))) = length (values_of (toSQL q)) + length calls"
    by (simp add: toSQL_values where_calls_values)
next
  show "length (values_of (toSQL (where_calls calls (new_QueryBuilder t)))) =
           qmarks (sql (toSQL (where_calls calls (new_QueryBuilder t))))"
    using ok t by (simp add: toSQL_where_calls values_toSQL_where_calls qmarks_none
        qmarks_join_fragments qmarks_Cons)
next
  show "values_of (toSQL (where_calls calls (new_QueryBuilder t))) = map (\<lambda>c. snd (snd c)) calls"
    by (rule values_toSQL_where_calls)
next
  fix i assume i: "i < length calls"
  let ?A = "take i calls" and ?B = "drop (Suc i) calls"
  have split: "calls = ?A @ calls ! i # ?B"
    using i by (rule id_take_nth_drop)
  define pre where "pre = ''SELECT * FROM '' @ t @ '' WHERE '' @
     (if ?A = [] then [] else array_join '' AND '' (map where_fragment ?A) @ '' AND '')"
  define post where "post =
     (if ?B = [] then [] else '' AND '' @ array_join '' AND '' (map where_fragment ?B))"
  have "map where_fragment calls = map where_fragment ?A @ where_fragment (calls ! i) # map where_fragment ?B"
    by (subst split) simp
  then have "array_join '' AND '' (map where_fragment calls) =
      (if ?A = [] then [] else array_join '' AND '' (map where_fragment ?A) @ '' AND '')
        @ where_fragment (calls ! i) @ post"
    by (simp add: array_join_mid post_def)
  moreover have "calls \<noteq> []" using i by auto
  ultimately have eq: "sql (toSQL (where_calls calls (new_QueryBuilder t))) =
      pre @ where_fragment (calls ! i) @ post"
    by (simp add: toSQL_where_calls pre_def)
  have "list_all call_ok ?A"
    using ok by (metis append_take_drop_id list_all_append)
  then have "qmarks (array_join '' AND '' (map where_fragment ?A)) = length ?A"
    by (rule qmarks_join_fragments)
  then have "qmarks pre = i"
    using i t \<open>calls \<noteq> []\<close> by (simp add: pre_def qmarks_none qmarks_Cons)
  with eq show "\<exists>pre post.
            sql (toSQL (where_calls calls (new_QueryBuilder t))) = pre @ where_fragment (calls ! i) @ post
            \<and> qmarks pre = i"
    by blast
qed

text \<open>The theorem at two calls on the table \<open>users\<close>.\<close>

theorem where_values_match_placeholders_witness:
  "length (values_of (toSQL (where_calls [(''age'', ''>'', JNumber 18), (''name'', ''='', JString ''Ann'')]
       (new_QueryBuilder ''users'')))) = 2
   \<and> qmarks (sql (toSQL (where_calls [(''age'', ''>'', JNumber 18), (''name'', ''='', JString ''Ann'')]
       (new_QueryBuilder ''users'')))) = 2
   \<and> values_of (toSQL (where_calls [(''age'', ''>'', JNumber 18), (''name'', ''='', JString ''Ann'')]
       (new_QueryBuilder ''users''))) = [JNumber 18, JString ''Ann'']"
  using where_values_match_placeholders [of "[(''age'', ''>'', JNumber 18), (''name'', ''='', JString ''Ann'')]" "''users''"]
  by (simp add: call_ok_def where_m_def toSQL_sql toSQL_values clause_simps
      new_QueryBuilder_def qmarks_def)

text \<open>
  C1 as stated has no condition on the table name, which \<open>toSQL\<close> writes into the text as
  it is: on the table name \<open>t?\<close>, one call gives one value and two \<open>?\<close> characters.
\<close>

theorem table_name_placeholder_counterexample:
  "list_all call_ok [(''a'', ''='', JNumber 1)]
   \<and> length (values_of (toSQL (where_calls [(''a'', ''='', JNumber 1)] (new_QueryBuilder ''t?'')))) = 1
   \<and> qmarks (sql (toSQL (where_calls [(''a'', ''='', JNumber 1)] (new_QueryBuilder ''t?'')))) = 2"
  by (simp add: call_ok_def where_m_def toSQL_sql toSQL_values clause_simps
      new_QueryBuilder_def qmarks_def)

subsection \<open>orWhere\<close>

text \<open>
  C2. When the builder has at least one predicate, so that its list is \<open>cs @ [l]\<close>,
  \<open>orWhere(column, operator, value)\<close> replaces the last fragment \<open>l\<close> by \<open>l\<close>, the text
  \<open>OR\<close> between spaces and the new parameterized predicate, leaves the fragments \<open>cs\<close>
  before it as they are, and appends the value; with no predicate it is \<open>where\<close>. One
  \<open>where('age', '>', a)\<close> followed by \<open>orWhere('status', '=', v)\<close> gives the single
  fragment \<open>age > ? OR status = ?\<close>, rendered after \<open>WHERE\<close>.
\<close>

theorem orWhere_binds_last_fragment:
  "(\<forall>cs l. whereConditions q = cs @ [l] \<longrightarrow>
      orWhere column operator v q =
        q\<lparr>whereConditions := cs @ [l @ '' OR '' @ column @ '' '' @ operator @ '' ?''],
          whereValues := whereValues q @ [v]\<rparr>)
   \<and> (whereConditions q = [] \<longrightarrow> orWhere column operator v q = where_m column operator v q)
   \<and> whereConditions (orWhere ''status'' ''='' v (where_m ''age'' ''>'' a (new_QueryBuilder t))) =
       [''age > ? OR status = ?'']
   \<and> sql (toSQL (orWhere ''status'' ''='' v (where_m ''age'' ''>'' a (new_QueryBuilder t)))) =
       ''SELECT * FROM '' @ t @ '' WHERE age > ? OR status = ?''"
proof (intro conjI allI impI)
  fix cs l assume "whereConditions q = cs @ [l]"
  then show "orWhere column operator v q =
        q\<lparr>whereConditions := cs @ [l @ '' OR '' @ column @ '' '' @ operator @ '' ?''],
          whereValues := whereValues q @ [v]\<rparr>"
    by (simp add: orWhere_def array_pop_eq)
next
  assume "whereConditions q = []"
  then show "orWhere column operator v q = where_m column operator v q"
    by (simp add: orWhere_def where_m_def)
next
  show "whereConditions (orWhere ''status'' ''='' v (where_m ''age'' ''>'' a (new_QueryBuilder t))) =
       [''age > ? OR status = ?'']"
    by (simp add: orWhere_def where_m_def new_QueryBuilder_def)
next
  show "sql (toSQL (orWhere ''status'' ''='' v (where_m ''age'' ''>'' a (new_QueryBuilder t)))) =
       ''SELECT * FROM '' @ t @ '' WHERE age > ? OR status = ?''"
    by (simp add: toSQL_sql clause_simps orWhere_def where_m_def new_QueryBuilder_def)
qed

text \<open>The theorem after two \<open>where\<close> calls, and on a new builder.\<close>

theorem orWhere_binds_last_fragment_witness:
  "whereConditions (orWhere ''c'' ''<'' (JNumber 3)
      (where_m ''b'' ''='' (JNumber 2) (where_m ''a'' ''='' (JNumber 1) (new_QueryBuilder ''t''))))
     = [''a = ?'', ''b = ? OR c < ?'']
   \<and> whereValues (orWhere ''c'' ''<'' (JNumber 3)
      (where_m ''b'' ''='' (JNumber 2) (where_m ''a'' ''='' (JNumber 1) (new_QueryBuilder ''t''))))
     = [JNumber 1, JNumber 2, JNumber 3]
   \<and> orWhere ''c'' ''<'' (JNumber 3) (new_QueryBuilder ''t'') = where_m ''c'' ''<'' (JNumber 3) (new_QueryBuilder ''t'')"
proof -
  let ?q = "where_m ''b'' ''='' (JNumber 2) (where_m ''a'' ''='' (JNumber 1) (new_QueryBuilder ''t''))"
  have 1: "whereConditions ?q = [''a = ?''] @ [''b = ?'']"
    by (simp add: where_m_def new_QueryBuilder_def)
  have 2: "whereConditions (new_QueryBuilder ''t'' :: js_value list QueryBuilder) = []"
    by (simp add: new_QueryBuilder_def)
  from orWhere_binds_last_fragment [of ?q "''c''" "''<''" "JNumber 3"] 1
  have "orWhere ''c'' ''<'' (JNumber 3) ?q =
        ?q\<lparr>whereConditions := [''a = ?''] @ [''b = ?'' @ '' OR '' @ ''c'' @ '' '' @ ''<'' @ '' ?''],
          whereValues := whereValues ?q @ [JNumber 3]\<rparr>"
    by blast
  moreover from orWhere_binds_last_fragment [of "new_QueryBuilder ''t''" "''c''" "''<''" "JNumber 3"] 2
  have "orWhere ''c'' ''<'' (JNumber 3) (new_QueryBuilder ''t'') = where_m ''c'' ''<'' (JNumber 3) (new_QueryBuilder ''t'')"
    by blast
  ultimately show ?thesis
    by (simp add: where_m_def new_QueryBuilder_def)
qed

subsection \<open>Clause order and the returned array\<close>

text \<open>
  C4, amended. For a builder object \<open>qo\<close> whose fields, with its parameter array read
  from the store, are \<open>q\<close>: \<open>toSQL()\<close> renders SELECT, DISTINCT if set, the columns, FROM
  and the table, then the JOINs, WHERE, GROUP BY, HAVING, ORDER BY, LIMIT and OFFSET that
  are present, in this order; \<open>toCountSQL()\<close> renders \<open>SELECT COUNT(*) as count FROM\<close> and
  the table (with \<open>as\<close> in lower case), then the JOINs, WHERE, GROUP BY and HAVING that
  are present, and nothing else; and each returns, as \<open>values\<close>, a newly allocated array
  that is not the builder's own and holds the same elements, so that no mutation of it
  changes what the builder holds.
\<close>

theorem renderers_clause_order_and_copy:
  assumes v: "view st qo = Some q"
  shows "sql (toSQL q) =
     ''SELECT '' @ (if distinct_q q then ''DISTINCT '' else []) @ array_join '', '' (selectColumns q)
       @ '' FROM '' @ tableName q
       @ list_clause '' '' '' '' (joins q)
       @ list_clause '' WHERE '' '' AND '' (whereConditions q)
       @ clause (groupByClause q) @ clause (havingClause q) @ clause (orderByClause q)
       @ clause (limitClause q) @ clause (offsetClause q)
   \<and> sql (toCountSQL q) =
     ''SELECT COUNT(*) as count FROM '' @ tableName q
       @ list_clause '' '' '' '' (joins q)
       @ list_clause '' WHERE '' '' AND '' (whereConditions q)
       @ clause (groupByClause q) @ clause (havingClause q)
   \<and> (\<exists>a st'. toSQL_obj qo st = Some (\<lparr>sql = sql (toSQL q), values_of = a\<rparr>, st')
         \<and> a \<noteq> whereValues qo \<and> lookup st' a = Some (whereValues q)
         \<and> (\<forall>xs. view (mutate a xs st') qo = Some q))
   \<and> (\<exists>a st'. toCountSQL_obj qo st = Some (\<lparr>sql = sql (toCountSQL q), values_of = a\<rparr>, st')
         \<and> a \<noteq> whereValues qo \<and> lookup st' a = Some (whereValues q)
         \<and> (\<forall>xs. view (mutate a xs st') qo = Some q))"
proof (intro conjI)
  show "\<exists>a st'. toSQL_obj qo st = Some (\<lparr>sql = sql (toSQL q), values_of = a\<rparr>, st')
         \<and> a \<noteq> whereValues qo \<and> lookup st' a = Some (whereValues q)
         \<and> (\<forall>xs. view (mutate a xs st') qo = Some q)"
  proof (intro exI conjI allI)
    show "toSQL_obj qo st = Some (\<lparr>sql = sql (toSQL q), values_of = length st\<rparr>, st @ [whereValues q])"
      using v by (simp add: toSQL_obj_def alloc_def toSQL_values)
    show "length st \<noteq> whereValues qo" using view_addr [OF v] by simp
    show "lookup (st @ [whereValues q]) (length st) = Some (whereValues q)"
      by (simp add: lookup_def)
    show "view (mutate (length st) xs (st @ [whereValues q])) qo = Some q" for xs
      using v by (rule view_mutate_fresh)
  qed
  show "\<exists>a st'. toCountSQL_obj qo st = Some (\<lparr>sql = sql (toCountSQL q), values_of = a\<rparr>, st')
         \<and> a \<noteq> whereValues qo \<and> lookup st' a = Some (whereValues q)
         \<and> (\<forall>xs. view (mutate a xs st') qo = Some q)"
  proof (intro exI conjI allI)
    show "toCountSQL_obj qo st = Some (\<lparr>sql = sql (toCountSQL q), values_of = length st\<rparr>, st @ [whereValues q])"
      using v by (simp add: toCountSQL_obj_def alloc_def toCountSQL_values)
    show "length st \<noteq> whereValues qo" using view_addr [OF v] by simp
    show "lookup (st @ [whereValues q]) (length st) = Some (whereValues q)"
      by (simp add: lookup_def)
    show "view (mutate (length st) xs (st @ [whereValues q])) qo = Some q" for xs
      using v by (rule view_mutate_fresh)
  qed
qed (rule toSQL_sql, rule toCountSQL_sql)

text \<open>The theorem on a builder with every clause set.\<close>

theorem renderers_clause_order_and_copy_witness:
  "sql (toSQL (example_builder (JNumber 18))) =
     ''SELECT DISTINCT name, age FROM users LEFT JOIN orders ON users.id = orders.user_id WHERE age > ? GROUP BY name, age HAVING COUNT(*) > 1 ORDER BY name ASC LIMIT 10 OFFSET 20''
   \<and> sql (toCountSQL (example_builder (JNumber 18))) =
     ''SELECT COUNT(*) as count FROM users LEFT JOIN orders ON users.id = orders.user_id WHERE age > ? GROUP BY name, age HAVING COUNT(*) > 1''
   \<and> (\<exists>a st'. toSQL_obj example_object [[JNumber 18]] =
          Some (\<lparr>sql = sql (toSQL (example_builder (JNumber 18))), values_of = a\<rparr>, st')
        \<and> a \<noteq> 0 \<and> lookup st' a = Some [JNumber 18]
        \<and> view (mutate a [] st') example_object = Some (example_builder (JNumber 18)))"
proof -
  have v: "view [[JNumber 18]] example_object = Some (example_builder (JNumber 18))"
    by (rule example_view)
  have e: "whereValues example_object = 0" "whereValues (example_builder (JNumber 18)) = [JNumber 18]"
    "distinct_q (example_builder v) = True"
    "selectColumns (example_builder v) = [''name'', ''age'']"
    "tableName (example_builder v) = ''users''"
    "joins (example_builder v) = [''LEFT JOIN orders ON users.id = orders.user_id'']"
    "whereConditions (example_builder v) = [''age > ?'']"
    "groupByClause (example_builder v) = ''GROUP BY name, age''"
    "havingClause (example_builder v) = ''HAVING COUNT(*) > 1''"
    "orderByClause (example_builder v) = ''ORDER BY name ASC''"
    "limitClause (example_builder v) = ''LIMIT 10''"
    "offsetClause (example_builder v) = ''OFFSET 20''" for v :: js_value
    by (simp_all add: example_object_def example_builder_def offset_def limit_def orderBy_def
      having_def groupBy_def where_m_def leftJoin_def join_m_def distinct_m_def select_def
      new_QueryBuilder_def columnList_def numberToString_examples)
  note c = renderers_clause_order_and_copy [OF v]
  have A: "sql (toSQL (example_builder (JNumber 18))) =
     ''SELECT DISTINCT name, age FROM users LEFT JOIN orders ON users.id = orders.user_id WHERE age > ? GROUP BY name, age HAVING COUNT(*) > 1 ORDER BY name ASC LIMIT 10 OFFSET 20''"
    using c [THEN conjunct1] unfolding e by (simp add: clause_simps)
  have B: "sql (toCountSQL (example_builder (JNumber 18))) =
     ''SELECT COUNT(*) as count FROM users LEFT JOIN orders ON users.id = orders.user_id WHERE age > ? GROUP BY name, age HAVING COUNT(*) > 1''"
    using c [THEN conjunct2, THEN conjunct1] unfolding e by (simp add: clause_simps)
  have C: "\<exists>a st'. toSQL_obj example_object [[JNumber 18]] =
          Some (\<lparr>sql = sql (toSQL (example_builder (JNumber 18))), values_of = a\<rparr>, st')
        \<and> a \<noteq> 0 \<and> lookup st' a = Some [JNumber 18]
        \<and> view (mutate a [] st') example_object = Some (example_builder (JNumber 18))"
    using c [THEN conjunct2, THEN conjunct2, THEN conjunct1] unfolding e(1,2) by blast
  from A B C show ?thesis by (intro conjI)
qed

text \<open>
  C4 as stated gives the count query the keyword \<open>AS\<close> in upper case; the text that
  \<open>toCountSQL\<close> renders has it in lower case.
\<close>

theorem count_keyword_case_counterexample:
  "sql (toCountSQL (new_QueryBuilder ''users'')) \<noteq> ''SELECT COUNT(*) AS count FROM users''
   \<and> sql (toCountSQL (new_QueryBuilder ''users'')) = ''SELECT COUNT(*) as count FROM users''"
  by (simp add: toCountSQL_sql clause_simps new_QueryBuilder_def)

subsection \<open>build\<close>

text \<open>
  C6. For every builder state, \<open>build()\<close> leaves the builder as it is, gives the same
  result when called again, and renders each column as its name, a space, its type, and
  then each of its modifier fragments after a space, in the order they are held. That
  order is the call order: after a column method \<open>c\<close> and the modifier calls \<open>ms\<close>
  chained on it, none of which throws, the new last column is rendered with the
  fragments the column method itself sets followed by those of \<open>ms\<close> in call order.
\<close>

theorem build_renders_columns:
  "snd (build tb) = tb
   \<and> build (snd (build tb)) = build tb
   \<and> result_columns (fst (build tb)) =
       map (\<lambda>col. col_name col @ '' '' @ col_type col @ spaced (modifiers col)) (columns tb)
   \<and> result_constraints (fst (build tb)) = constraints tb
   \<and> (\<exists>tb'. call_modifiers ms (snd (call_column c tb)) = (None, tb')
         \<and> result_columns (fst (build tb')) =
             result_columns (fst (build tb)) @
               [col_name (declared c) @ '' '' @ col_type (declared c)
                  @ spaced (modifiers (declared c) @ map modifier_fragment ms)])"
proof (intro conjI)
  show "result_columns (fst (build tb)) =
       map (\<lambda>col. col_name col @ '' '' @ col_type col @ spaced (modifiers col)) (columns tb)"
    by (simp add: build_def definition_of_eq)
  let ?tb1 = "tb\<lparr>currentColumn := Some (length (columns tb)), columns := columns tb @ [declared c]\<rparr>"
  have cur: "currentColumn ?tb1 = Some (length (columns tb))" "length (columns tb) < length (columns ?tb1)"
    by simp_all
  show "\<exists>tb'. call_modifiers ms (snd (call_column c tb)) = (None, tb')
         \<and> result_columns (fst (build tb')) =
             result_columns (fst (build tb)) @
               [col_name (declared c) @ '' '' @ col_type (declared c)
                  @ spaced (modifiers (declared c) @ map modifier_fragment ms)]"
    by (simp add: call_column_eq call_modifiers_current [OF cur] build_def definition_of_eq)
qed (simp_all add: build_def)

text \<open>The theorem on \<open>integer('age').notNull().default(0).check('age >= 0')\<close>.\<close>

theorem build_renders_columns_witness:
  "\<exists>tb'. call_modifiers [Call_notNull, Call_default (JNumber 0), Call_check ''age >= 0'']
            (snd (call_column (Call_integer ''age'') (new_TableBuilder ''users''))) = (None, tb')
      \<and> result_columns (fst (build tb')) = [''age INTEGER NOT NULL DEFAULT 0 CHECK (age >= 0)'']
      \<and> build (snd (build tb')) = build tb'"
  using build_renders_columns [of "new_TableBuilder ''users''" "[Call_notNull, Call_default (JNumber 0), Call_check ''age >= 0'']"
      "Call_integer ''age''"]
  by (simp add: build_def new_TableBuilder_def spaced_def numberToString_def digit_def)

subsection \<open>Modifiers with no current column\<close>

text \<open>
  C7. On a newly constructed builder, and on any builder whose current column is still
  \<open>null\<close>, each of the modifier calls \<open>primaryKey\<close>, \<open>autoIncrement\<close>, \<open>notNull\<close>,
  \<open>unique\<close>, \<open>default\<close>, \<open>check\<close> and \<open>collate\<close> throws the error
  \<open>No column selected\<close> and leaves the builder unchanged.
\<close>

theorem modifier_without_column:
  "call_modifier m (new_TableBuilder name) = (Some no_column_selected, new_TableBuilder name)
   \<and> (currentColumn tb = None \<longrightarrow> call_modifier m tb = (Some no_column_selected, tb))
   \<and> primaryKey (new_TableBuilder name) = (Some no_column_selected, new_TableBuilder name)
   \<and> autoIncrement (new_TableBuilder name) = (Some no_column_selected, new_TableBuilder name)
   \<and> notNull (new_TableBuilder name) = (Some no_column_selected, new_TableBuilder name)
   \<and> unique (new_TableBuilder name) = (Some no_column_selected, new_TableBuilder name)
   \<and> default_m v (new_TableBuilder name) = (Some no_column_selected, new_TableBuilder name)
   \<and> check expression (new_TableBuilder name) = (Some no_column_selected, new_TableBuilder name)
   \<and> collate collation (new_TableBuilder name) = (Some no_column_selected, new_TableBuilder name)
   \<and> no_column_selected = Error ''No column selected. Call a column type method first.''"
  by (simp add: call_modifier_eq modifier_def new_TableBuilder_def primaryKey_def autoIncrement_def
      notNull_def unique_def default_m_def check_def collate_def no_column_selected_def)


text \<open>The theorem on a builder on which only \<open>foreignKey\<close> has been called.\<close>

theorem modifier_without_column_witness:
  "currentColumn (snd (foreignKey ''user_id'' (new_TableBuilder ''orders''))) = None
   \<and> call_modifier Call_notNull (snd (foreignKey ''user_id'' (new_TableBuilder ''orders''))) =
       (Some (Error ''No column selected. Call a column type method first.''),
        snd (foreignKey ''user_id'' (new_TableBuilder ''orders'')))"
  using modifier_without_column [of Call_notNull "''orders''" "snd (foreignKey ''user_id'' (new_TableBuilder ''orders''))"]
  by (simp add: foreignKey_def new_TableBuilder_def)

subsection \<open>Foreign key amendments\<close>

text \<open>
  C8. For every builder state, \<open>references\<close>, \<open>onDelete\<close> and \<open>onUpdate\<close> never throw.
  \<open>references\<close> amends the last constraint exactly when there is one and it starts with
  \<open>FOREIGN KEY\<close>; \<open>onDelete\<close> and \<open>onUpdate\<close> amend it exactly when there is one and it
  contains \<open>REFERENCES\<close>; otherwise the call returns the builder unchanged.
\<close>

theorem foreign_key_amendments:
  "(references_guard tb \<longleftrightarrow> (\<exists>cs rest. constraints tb = cs @ [''FOREIGN KEY'' @ rest]))
   \<and> (action_guard tb \<longleftrightarrow> (\<exists>cs a b. constraints tb = cs @ [a @ ''REFERENCES'' @ b]))
   \<and> references tableColumn tb =
       (None, if references_guard tb
              then tb\<lparr>constraints := butlast (constraints tb) @
                     [last (constraints tb) @ '' REFERENCES '' @
                        element_text (split_str CHR ''.'' tableColumn) 0 @ ''('' @
                        element_text (split_str CHR ''.'' tableColumn) 1 @ '')'']\<rparr>
              else tb)
   \<and> onDelete action tb =
       (None, if action_guard tb
              then tb\<lparr>constraints := butlast (constraints tb) @
                     [last (constraints tb) @ '' ON DELETE '' @ fk_action_text action]\<rparr>
              else tb)
   \<and> onUpdate action tb =
       (None, if action_guard tb
              then tb\<lparr>constraints := butlast (constraints tb) @
                     [last (constraints tb) @ '' ON UPDATE '' @ fk_action_text action]\<rparr>
              else tb)"
proof (intro conjI)
  show "references_guard tb \<longleftrightarrow> (\<exists>cs rest. constraints tb = cs @ [''FOREIGN KEY'' @ rest])"
    by (rule references_guard_iff)
  show "action_guard tb \<longleftrightarrow> (\<exists>cs a b. constraints tb = cs @ [a @ ''REFERENCES'' @ b])"
    by (rule action_guard_iff)
qed (simp_all add: references_def onDelete_def onUpdate_def references_guard_def action_guard_def
      last_element_eq set_last_eq Let_def)

text \<open>
  The theorem on \<open>onDelete\<close> before \<open>references\<close>, on calls with no constraint at all,
  and on the calls in order.
\<close>

theorem foreign_key_amendments_witness:
  "onDelete CASCADE fk_declared = (None, fk_declared)
   \<and> onUpdate CASCADE (new_TableBuilder ''orders'') = (None, new_TableBuilder ''orders'')
   \<and> references ''users.id'' (new_TableBuilder ''orders'') = (None, new_TableBuilder ''orders'')
   \<and> constraints (snd (references ''users.id'' fk_declared)) = [''FOREIGN KEY (user_id) REFERENCES users(id)'']
   \<and> constraints (snd (onDelete CASCADE (snd (references ''users.id'' fk_declared)))) =
       [''FOREIGN KEY (user_id) REFERENCES users(id) ON DELETE CASCADE'']"
proof -
  let ?new = "new_TableBuilder ''orders''"
  let ?ref = "snd (references ''users.id'' fk_declared)"
  have g0: "\<not> references_guard ?new" "\<not> action_guard ?new"
    by (simp_all add: new_TableBuilder_def references_guard_def action_guard_def last_element_def)
  have 1: "onDelete CASCADE fk_declared = (None, fk_declared)"
    using foreign_key_amendments [of fk_declared "''users.id''" CASCADE] fk_declared_guards by simp
  have 2: "onUpdate CASCADE ?new = (None, ?new)" "references ''users.id'' ?new = (None, ?new)"
    using foreign_key_amendments [of ?new "''users.id''" CASCADE] g0 by simp_all
  have 3: "?ref = fk_declared\<lparr>constraints := [''FOREIGN KEY (user_id) REFERENCES users(id)'']\<rparr>"
    using foreign_key_amendments [of fk_declared "''users.id''" CASCADE] fk_declared_guards
    by (simp add: split_example element_text_def) (simp add: fk_declared_eq)
  have g3: "action_guard ?ref"
    unfolding 3 by (simp add: fk_declared_eq action_guard_def last_element_def truthy_str_def startsWith_def)
  have 4: "constraints (snd (onDelete CASCADE ?ref)) =
       [''FOREIGN KEY (user_id) REFERENCES users(id) ON DELETE CASCADE'']"
    using foreign_key_amendments [of ?ref "''users.id''" CASCADE] g3 by (simp add: 3)
  from 1 2 3 4 show ?thesis by simp
qed

subsection \<open>find: LIMIT and OFFSET\<close>

text \<open>
  C10. In the query that \<open>find\<close> builds, when \<open>options.limit\<close> is absent or 0 there is
  neither a LIMIT nor an OFFSET clause, whatever \<open>options.offset\<close> is: the query is the
  one built with both options absent, and its SQL text ends with the ORDER BY clause, if
  any. An OFFSET clause is there only when \<open>options.limit\<close> is present and not 0; with
  both present and not 0, both clauses are there. On a connected facade, this SQL text
  is the statement that \<open>find\<close> gives to the engine.
\<close>

theorem find_offset_needs_limit:
  "((opt_limit options = None \<or> opt_limit options = Some 0) \<longrightarrow>
      limitClause (find_query table conditions options) = []
      \<and> offsetClause (find_query table conditions options) = []
      \<and> find_query table conditions options =
          find_query table conditions (options\<lparr>opt_limit := None, opt_offset := None\<rparr>)
      \<and> sql (toSQL (find_query table conditions options)) =
          ''SELECT '' @ array_join '', '' (selectColumns (find_query table conditions options))
            @ '' FROM '' @ table
            @ list_clause '' WHERE '' '' AND '' (whereConditions (find_query table conditions options))
            @ clause (groupByClause (find_query table conditions options))
            @ clause (havingClause (find_query table conditions options))
            @ clause (orderByClause (find_query table conditions options)))
   \<and> (offsetClause (find_query table conditions options) \<noteq> [] \<longrightarrow>
        (\<exists>n. opt_limit options = Some n \<and> n \<noteq> 0))
   \<and> (\<forall>n m. opt_limit options = Some n \<and> n \<noteq> 0 \<and> opt_offset options = Some m \<and> m \<noteq> 0 \<longrightarrow>
        limitClause (find_query table conditions options) = ''LIMIT '' @ numberToString n
        \<and> offsetClause (find_query table conditions options) = ''OFFSET '' @ numberToString m)
   \<and> (\<forall>tr d. isConnected f \<and> db f = Some (tr, d) \<longrightarrow>
        (\<exists>res d'. find_m (traced eng) table conditions options f =
           (res, f\<lparr>db := Some (tr @ [sql (toSQL (find_query table conditions options))], d')\<rparr>)))"
proof (intro conjI impI allI)
  assume a: "opt_limit options = None \<or> opt_limit options = Some 0"
  show l: "limitClause (find_query table conditions options) = []"
    using a by (auto simp: find_query_limit)
  show o: "offsetClause (find_query table conditions options) = []"
    using a by (auto simp: find_query_offset)
  show "find_query table conditions options =
          find_query table conditions (options\<lparr>opt_limit := None, opt_offset := None\<rparr>)"
    using a by (rule find_query_no_limit)
  show "sql (toSQL (find_query table conditions options)) =
          ''SELECT '' @ array_join '', '' (selectColumns (find_query table conditions options))
            @ '' FROM '' @ table
            @ list_clause '' WHERE '' '' AND '' (whereConditions (find_query table conditions options))
            @ clause (groupByClause (find_query table conditions options))
            @ clause (havingClause (find_query table conditions options))
            @ clause (orderByClause (find_query table conditions options))"
    by (simp add: toSQL_sql l o find_query_table find_query_joins find_query_distinct clause_simps)
next
  assume "offsetClause (find_query table conditions options) \<noteq> []"
  then show "\<exists>n. opt_limit options = Some n \<and> n \<noteq> 0"
    by (auto simp: find_query_offset split: option.splits if_splits)
next
  fix n m
  assume a: "opt_limit options = Some n \<and> n \<noteq> 0 \<and> opt_offset options = Some m \<and> m \<noteq> 0"
  show "limitClause (find_query table conditions options) = ''LIMIT '' @ numberToString n"
    using a by (simp add: find_query_limit)
  show "offsetClause (find_query table conditions options) = ''OFFSET '' @ numberToString m"
    using a by (simp add: find_query_offset)
next
  fix tr d
  assume a: "isConnected f \<and> db f = Some (tr, d)"
  obtain res s' where r: "all_rows (traced eng) (sql (toSQL (find_query table conditions options)))
      (values_of (toSQL (find_query table conditions options))) (tr, d) = (res, s')"
    by (cases "all_rows (traced eng) (sql (toSQL (find_query table conditions options)))
      (values_of (toSQL (find_query table conditions options))) (tr, d)") blast
  from traced_all_rows [OF r] obtain d' where
    s': "s' = (tr @ [sql (toSQL (find_query table conditions options))], d')"
    by (cases s') simp
  have "find_m (traced eng) table conditions options f =
           (res, f\<lparr>db := Some (tr @ [sql (toSQL (find_query table conditions options))], d')\<rparr>)"
    using a r s' by (simp add: find_m_def ensureConnected_def Let_def)
  then show "\<exists>res d'. find_m (traced eng) table conditions options f =
           (res, f\<lparr>db := Some (tr @ [sql (toSQL (find_query table conditions options))], d')\<rparr>)"
    by blast
qed


text \<open>
  The theorem on an offset with no limit, on an offset with the limit 0, and on an
  offset with the limit 10.
\<close>

theorem find_offset_needs_limit_witness:
  "sql (toSQL (find_query ''users'' [(''age'', Condition ''>='' (JNumber 18))]
       (no_options\<lparr>opt_offset := Some 20\<rparr>))) = ''SELECT * FROM users WHERE age >= ?''
   \<and> sql (toSQL (find_query ''users'' [(''age'', Condition ''>='' (JNumber 18))]
       (no_options\<lparr>opt_limit := Some 0, opt_offset := Some 20\<rparr>))) = ''SELECT * FROM users WHERE age >= ?''
   \<and> offsetClause (find_query ''users'' [(''age'', Condition ''>='' (JNumber 18))]
       (no_options\<lparr>opt_limit := Some 10, opt_offset := Some 20\<rparr>)) = ''OFFSET 20''"
proof -
  let ?c = "[(''age'', Condition ''>='' (JNumber 18))]"
  let ?f = "\<lparr>dbPath = ''app.sqlite'', db = None :: (string list \<times> unit) option, isConnected = False\<rparr>"
  let ?e = "\<lparr>exec = \<lambda>s d. (None, d), get_count = \<lambda>s vs d. (Inr 0, d),
            all_rows = \<lambda>s vs d. (Inr ([] :: js_value list), d)\<rparr> :: (unit, js_value, js_value) engine"
  let ?o1 = "no_options\<lparr>opt_offset := Some 20\<rparr>"
  let ?o2 = "no_options\<lparr>opt_limit := Some 0, opt_offset := Some 20\<rparr>"
  let ?o3 = "no_options\<lparr>opt_limit := Some 10, opt_offset := Some 20\<rparr>"
  have l1: "opt_limit ?o1 = None \<or> opt_limit ?o1 = Some 0"
    and l2: "opt_limit ?o2 = None \<or> opt_limit ?o2 = Some 0"
    and l3: "opt_limit ?o3 = Some 10 \<and> (10::int) \<noteq> 0 \<and> opt_offset ?o3 = Some 20 \<and> (20::int) \<noteq> 0"
    by (simp_all add: no_options_def)
  note a1 = find_offset_needs_limit [of ?o1 "''users''" ?c ?f ?e, THEN conjunct1, THEN mp, OF l1,
      THEN conjunct2, THEN conjunct2, THEN conjunct2]
  note a2 = find_offset_needs_limit [of ?o2 "''users''" ?c ?f ?e, THEN conjunct1, THEN mp, OF l2,
      THEN conjunct2, THEN conjunct2, THEN conjunct2]
  note a3 = find_offset_needs_limit [of ?o3 "''users''" ?c ?f ?e, THEN conjunct2, THEN conjunct2, THEN conjunct1,
      THEN spec, THEN spec, THEN mp, OF l3, THEN conjunct2]
  have 1: "sql (toSQL (find_query ''users'' ?c ?o1)) = ''SELECT * FROM users WHERE age >= ?''"
    using a1 by (simp add: find_query_examples where_m_def new_QueryBuilder_def clause_simps)
  have 2: "sql (toSQL (find_query ''users'' ?c ?o2)) = ''SELECT * FROM users WHERE age >= ?''"
    using a2 by (simp add: find_query_examples where_m_def new_QueryBuilder_def clause_simps)
  have 3: "offsetClause (find_query ''users'' ?c ?o3) = ''OFFSET 20''"
    using a3 by (simp add: numberToString_examples)
  from 1 2 3 show ?thesis by (intro conjI)
qed

subsection \<open>findPaginated\<close>

text \<open>
  C9. When \<open>count\<close> returns a total \<open>tot \<ge> 0\<close>, the requested limit is positive and the
  page fetch returns, \<open>findPaginated\<close> returns the rows with a summary that echoes the
  requested page and limit, has \<open>total = tot\<close>, has \<open>totalPages\<close> the ceiling of
  \<open>tot / limit\<close> (the least \<open>n\<close> with \<open>tot \<le> n * limit\<close>, which is
  \<open>(tot + limit - 1) div limit\<close>), \<open>hasNext = (page < totalPages)\<close> and
  \<open>hasPrev = (page > 1)\<close>.
\<close>

theorem pagination_summary:
  assumes tot: "0 \<le> tot" and lim: "0 < pg_limit pg"
    and c: "count eng table conditions f = (Inr tot, f1)"
    and r: "find_m eng table conditions
              (options\<lparr>opt_limit := Some (pg_limit pg),
                       opt_offset := Some ((pg_page pg - 1) * pg_limit pg)\<rparr>) f1 = (Inr rows, f2)"
  shows "\<exists>res n. findPaginated eng table conditions pg options f = (Inr res, f2)
           \<and> data res = rows
           \<and> page (pagination res) = pg_page pg
           \<and> limit_of (pagination res) = pg_limit pg
           \<and> total (pagination res) = tot
           \<and> totalPages (pagination res) = Finite n
           \<and> n = \<lceil>real_of_int tot / real_of_int (pg_limit pg)\<rceil>
           \<and> n = (tot + pg_limit pg - 1) div pg_limit pg
           \<and> 0 \<le> n \<and> (n - 1) * pg_limit pg < tot \<and> tot \<le> n * pg_limit pg
           \<and> hasNext (pagination res) = (pg_page pg < n)
           \<and> hasPrev (pagination res) = (1 < pg_page pg)"
proof -
  let ?n = "\<lceil>real_of_int tot / real_of_int (pg_limit pg)\<rceil>"
  let ?res = "\<lparr>data = rows,
       pagination = \<lparr>page = pg_page pg, limit_of = pg_limit pg, total = tot,
          totalPages = Finite ?n, hasNext = pg_page pg < ?n, hasPrev = 1 < pg_page pg\<rparr>\<rparr>"
  have q: "ceil_quotient tot (pg_limit pg) = Finite ?n"
    using lim by (simp add: ceil_quotient_def)
  have run: "findPaginated eng table conditions pg options f = (Inr ?res, f2)"
    by (simp add: findPaginated_def c r q Let_def)
  have b: "(?n - 1) * pg_limit pg < tot" "tot \<le> ?n * pg_limit pg"
    using ceiling_quotient_bounds [OF lim, of tot] by simp_all
  have nn: "0 \<le> ?n"
    using tot lim by (simp add: ceiling_quotient_div [OF lim] pos_imp_zdiv_nonneg_iff)
  show ?thesis
    using run b nn ceiling_quotient_div [OF lim, of tot]
    by (intro exI [of _ ?res] exI [of _ ?n]) simp
qed

text \<open>Page 2 with limit 10 on 25 rows: three pages, a next and a previous one.\<close>

theorem pagination_summary_witness:
  "\<exists>res. findPaginated example_engine ''users'' [] \<lparr>pg_page = 2, pg_limit = 10\<rparr> no_options (connected_facade ())
            = (Inr res, connected_facade ())
      \<and> length (data res) = 10
      \<and> page (pagination res) = 2 \<and> limit_of (pagination res) = 10 \<and> total (pagination res) = 25
      \<and> totalPages (pagination res) = Finite 3
      \<and> hasNext (pagination res) \<and> hasPrev (pagination res)"
proof -
  let ?pg = "\<lparr>pg_page = 2, pg_limit = 10\<rparr>"
  have c: "count example_engine ''users'' [] (connected_facade ()) = (Inr 25, connected_facade ())"
    by (simp add: count_def ensureConnected_def connected_facade_def example_engine_def Let_def)
  have r: "find_m example_engine ''users'' []
      (no_options\<lparr>opt_limit := Some (pg_limit ?pg), opt_offset := Some ((pg_page ?pg - 1) * pg_limit ?pg)\<rparr>)
      (connected_facade ()) = (Inr [11, 12, 13, 14, 15, 16, 17, 18, 19, 20], connected_facade ())"
    by (simp add: find_m_def ensureConnected_def connected_facade_def example_engine_def Let_def)
  have "(0::int) \<le> 25" "0 < pg_limit ?pg" by simp_all
  from pagination_summary [OF this c r] obtain res n where
    "findPaginated example_engine ''users'' [] ?pg no_options (connected_facade ()) = (Inr res, connected_facade ())"
    "data res = [11, 12, 13, 14, 15, 16, 17, 18, 19, 20]"
    "page (pagination res) = 2" "limit_of (pagination res) = 10" "total (pagination res) = 25"
    "totalPages (pagination res) = Finite n" "n = (25 + 10 - 1) div 10"
    "hasNext (pagination res) = (2 < n)" "hasPrev (pagination res) = (1 < (2::int))"
    by auto
  then show ?thesis by (intro exI [of _ res]) simp
qed


subsection \<open>transaction\<close>




end
